theory Spec2Isabelle
  imports Main "HOL-Library.Word"
begin

unbundle bit_operations_syntax

section \<open>The C types and constants of zstd.c\<close>

text \<open>
  The extension is built for a 64-bit PostgreSQL server: \<open>size_t\<close> and the
  \<open>unsigned long long\<close> of the size query are both 64 bits wide, \<open>int32\<close> is read
  with \<open>sint\<close>. A \<open>bytea\<close> argument is the list of its data bytes, that is the
  \<open>VARSIZE - VARHDRSZ\<close> bytes at \<open>VARDATA\<close>; SQL NULL is \<open>None\<close>.
\<close>

type_synonym byte = "8 word"
type_synonym size_t = "64 word"
type_synonym int32 = "32 word"
type_synonym ptr = nat

definition PG_INT32_MAX :: size_t where
  "PG_INT32_MAX = 0x7fffffff"

definition DEFAULT_COMPRESSION_LEVEL :: int32 where
  "DEFAULT_COMPRESSION_LEVEL = 3"

text \<open>\<open>VARHDRSZ\<close> of PostgreSQL's headers: the four bytes of a varlena's length word.\<close>

definition VARHDRSZ :: size_t where
  "VARHDRSZ = 4"

text \<open>
  The two sentinels of \<open>ZSTD_getFrameContentSize\<close>, as zstd.h writes them:
  \<open>0ULL - 1\<close> and \<open>0ULL - 2\<close>.
\<close>

definition ZSTD_CONTENTSIZE_UNKNOWN :: "64 word" where
  "ZSTD_CONTENTSIZE_UNKNOWN = 0 - 1"

definition ZSTD_CONTENTSIZE_ERROR :: "64 word" where
  "ZSTD_CONTENTSIZE_ERROR = 0 - 2"

text \<open>
  How a call ends when it returns no value: \<open>elog(ERROR, ...)\<close> aborts the call,
  \<open>elog(FATAL, ...)\<close> ends the process, both with their formatted message.
  \<open>CRASH\<close> marks undefined behaviour of the C program (a handle freed twice, a store
  past the end of an allocated chunk): the model stops there instead of going on.
\<close>

datatype failure = ERROR string | FATAL string | CRASH string

section \<open>The codec and the host, as the program sees them\<close>

text \<open>
  libzstd is not part of the repository: its functions are the fields of a record, and
  the theorems quantify over that record. A function that stores into
  \<open>dst\<close> returns its \<open>size_t\<close> result together with the bytes it stored at \<open>dst\<close>;
  a dictionary is \<open>None\<close> when the C code passes \<open>(NULL, 0)\<close>. The last field says
  whether zstd.h defines the macro \<open>ZSTD_CONTENTSIZE_UNKNOWN\<close>, which selects the
  preprocessor branch of \<open>decompress\<close> and \<open>length\<close>.
\<close>

record zstd =
  ZSTD_compressBound :: "size_t \<Rightarrow> size_t"
  ZSTD_compress_usingDict ::
    "ptr option \<Rightarrow> size_t \<Rightarrow> byte list \<Rightarrow> byte list option \<Rightarrow> int32 \<Rightarrow> size_t \<times> byte list"
  ZSTD_decompress_usingDict ::
    "ptr option \<Rightarrow> size_t \<Rightarrow> byte list \<Rightarrow> byte list option \<Rightarrow> size_t \<times> byte list"
  ZSTD_getFrameContentSize :: "byte list \<Rightarrow> 64 word"
  ZSTD_getDecompressedSize :: "byte list \<Rightarrow> 64 word"
  ZSTD_isError :: "size_t \<Rightarrow> bool"
  ZSTD_getErrorName :: "size_t \<Rightarrow> string"
  CONTENTSIZE_UNKNOWN_defined :: bool

text \<open>
  PostgreSQL's allocator, likewise a parameter: \<open>palloc\<close> and \<open>repalloc\<close> either grant
  a request (\<open>None\<close>) or raise \<open>ERROR\<close> with a message; \<open>uninit\<close> is the content of
  a fresh chunk, which \<open>palloc\<close> does not clear.
\<close>

record host =
  palloc :: "size_t \<Rightarrow> string option"
  repalloc :: "size_t \<Rightarrow> string option"
  uninit :: "nat \<Rightarrow> byte"

text \<open>
  The two static handles of the module, and the context handles of libzstd that are
  allocated and not yet freed.
\<close>

record state =
  cctx :: "ptr option"
  dctx :: "ptr option"
  live :: "ptr list"

definition fresh :: "ptr list \<Rightarrow> ptr" where
  "fresh hs = Suc (fold max hs 0)"

text \<open>
  Creating a context returns a new handle, or NULL when the library cannot allocate
  (\<open>avail = False\<close>). Freeing a handle that is not live is a double free.
\<close>

definition ZSTD_createCCtx :: "bool \<Rightarrow> ptr list \<Rightarrow> ptr option \<times> ptr list" where
  "ZSTD_createCCtx avail hs = (if avail then (Some (fresh hs), fresh hs # hs) else (None, hs))"

definition ZSTD_createDCtx :: "bool \<Rightarrow> ptr list \<Rightarrow> ptr option \<times> ptr list" where
  "ZSTD_createDCtx avail hs = (if avail then (Some (fresh hs), fresh hs # hs) else (None, hs))"

definition ZSTD_freeCCtx :: "ptr \<Rightarrow> ptr list \<Rightarrow> failure + ptr list" where
  "ZSTD_freeCCtx p hs =
     (if p \<in> set hs then Inr (removeAll p hs) else Inl (CRASH ''ZSTD_freeCCtx of a freed handle''))"

definition ZSTD_freeDCtx :: "ptr \<Rightarrow> ptr list \<Rightarrow> failure + ptr list" where
  "ZSTD_freeDCtx p hs =
     (if p \<in> set hs then Inr (removeAll p hs) else Inl (CRASH ''ZSTD_freeDCtx of a freed handle''))"

section \<open>Module load and unload\<close>

text \<open>
  \<open>_PG_init\<close>: the state is returned also when \<open>elog(FATAL)\<close> is raised, so that what
  a partly failed initialisation leaves behind can be inspected.
\<close>

definition PG_init :: "bool \<Rightarrow> bool \<Rightarrow> state \<Rightarrow> failure option \<times> state" where
  "PG_init avail_c avail_d s =
     (let (c, hs1) = ZSTD_createCCtx avail_c (live s);
          s1 = s\<lparr>cctx := c, live := hs1\<rparr>
      in if c = None then (Some (FATAL ''ZSTD_createCCtx failed''), s1)
         else
           let (d, hs2) = ZSTD_createDCtx avail_d (live s1);
               s2 = s1\<lparr>dctx := d, live := hs2\<rparr>
           in if d = None then (Some (FATAL ''ZSTD_createDCtx failed''), s2)
              else (None, s2))"

text \<open>\<open>_PG_fini\<close>: each handle is freed when it is not NULL; neither variable is reset.\<close>

definition PG_fini :: "state \<Rightarrow> failure + state" where
  "PG_fini s =
     (case (case cctx s of None \<Rightarrow> Inr (live s) | Some p \<Rightarrow> ZSTD_freeCCtx p (live s)) of
        Inl e \<Rightarrow> Inl e
      | Inr hs1 \<Rightarrow>
          (case (case dctx s of None \<Rightarrow> Inr hs1 | Some q \<Rightarrow> ZSTD_freeDCtx q hs1) of
             Inl e \<Rightarrow> Inl e
           | Inr hs2 \<Rightarrow> Inr (s\<lparr>live := hs2\<rparr>)))"

text \<open>The process before the library is loaded: both static pointers are NULL.\<close>

definition unloaded :: state where
  "unloaded = \<lparr>cctx = None, dctx = None, live = []\<rparr>"

section \<open>Varlena buffers\<close>

text \<open>
  \<open>out = palloc(n)\<close> is a chunk of \<open>n\<close> bytes; the codec stores at \<open>VARDATA(out)\<close>,
  four bytes into it. \<open>stays_inside n written\<close>: the bytes stored there lie within the
  chunk.
\<close>

definition stays_inside :: "size_t \<Rightarrow> byte list \<Rightarrow> bool" where
  "stays_inside n written \<longleftrightarrow> written = [] \<or> unat VARHDRSZ + length written \<le> unat n"

text \<open>
  \<open>SET_VARSIZE(out, len)\<close> keeps the low 30 bits of \<open>len\<close> in the length word, and that
  is what \<open>VARSIZE\<close> reads back. The bytea handed to the caller is the
  \<open>VARSIZE - VARHDRSZ\<close> bytes at \<open>VARDATA(out)\<close>: what the codec stored, then whatever
  the chunk held before.
\<close>

definition VARSIZE :: "size_t \<Rightarrow> nat" where
  "VARSIZE len = unat (len AND 0x3FFFFFFF)"

definition VARDATA :: "host \<Rightarrow> size_t \<Rightarrow> byte list \<Rightarrow> byte list" where
  "VARDATA h len written =
     (let n = VARSIZE len - unat VARHDRSZ
      in take n (written @ map (uninit h) [length written..<n]))"

section \<open>The three SQL functions\<close>

definition compress ::
  "zstd \<Rightarrow> host \<Rightarrow> state \<Rightarrow> byte list option \<Rightarrow> byte list option \<Rightarrow> int32 option
     \<Rightarrow> failure + byte list option" where
  "compress c h s arg0 arg1 arg2 =
     (case arg0 of
        None \<Rightarrow> Inr None
      | Some inp \<Rightarrow>
          let in_len = (of_nat (length inp) :: size_t);
              level = (case arg2 of None \<Rightarrow> DEFAULT_COMPRESSION_LEVEL | Some l \<Rightarrow> l);
              bound = ZSTD_compressBound c in_len
          in (case palloc h (bound + VARHDRSZ) of
                Some msg \<Rightarrow> Inl (ERROR msg)
              | None \<Rightarrow>
                  let (out_len, written) =
                        ZSTD_compress_usingDict c (cctx s) bound inp arg1 level
                  in if \<not> stays_inside (bound + VARHDRSZ) written
                     then Inl (CRASH ''ZSTD_compress_usingDict stored past the chunk'')
                     else if ZSTD_isError c out_len
                     then Inl (ERROR (''ZSTD_compress_usingDict failed: '' @
                                      ZSTD_getErrorName c out_len))
                     else (case repalloc h (out_len + VARHDRSZ) of
                             Some msg \<Rightarrow> Inl (ERROR msg)
                           | None \<Rightarrow>
                               if unat (out_len + VARHDRSZ) < unat VARHDRSZ
                               then Inl (CRASH ''SET_VARSIZE stored past the chunk'')
                               else Inr (Some (VARDATA h (out_len + VARHDRSZ) written)))))"

definition decompress ::
  "zstd \<Rightarrow> host \<Rightarrow> state \<Rightarrow> byte list option \<Rightarrow> byte list option
     \<Rightarrow> failure + byte list option" where
  "decompress c h s arg0 arg1 =
     (case arg0 of
        None \<Rightarrow> Inr None
      | Some inp \<Rightarrow>
          let known = CONTENTSIZE_UNKNOWN_defined c;
              out_len = (if known then ZSTD_getFrameContentSize c inp
                         else ZSTD_getDecompressedSize c inp)
          in if known \<and> out_len = ZSTD_CONTENTSIZE_UNKNOWN
             then Inl (ERROR ''ZSTD_getFrameContentSize returned unknown'')
             else if known \<and> out_len = ZSTD_CONTENTSIZE_ERROR
             then Inl (ERROR ''ZSTD_getFrameContentSize failed'')
             else (case palloc h (out_len + VARHDRSZ) of
                     Some msg \<Rightarrow> Inl (ERROR msg)
                   | None \<Rightarrow>
                       let (ret, written) =
                             ZSTD_decompress_usingDict c (dctx s) out_len inp arg1
                       in if \<not> stays_inside (out_len + VARHDRSZ) written
                          then Inl (CRASH ''ZSTD_decompress_usingDict stored past the chunk'')
                          else if ZSTD_isError c ret
                          then Inl (ERROR (''ZSTD_decompress_usingDict failed: '' @
                                           ZSTD_getErrorName c ret))
                          else if unat (out_len + VARHDRSZ) < unat VARHDRSZ
                          then Inl (CRASH ''SET_VARSIZE stored past the chunk'')
                          else Inr (Some (VARDATA h (ret + VARHDRSZ) written))))"

definition length_zstd :: "zstd \<Rightarrow> byte list option \<Rightarrow> failure + int32 option" where
  "length_zstd c arg0 =
     (case arg0 of
        None \<Rightarrow> Inr None
      | Some inp \<Rightarrow>
          let known = CONTENTSIZE_UNKNOWN_defined c;
              out_len = (if known then ZSTD_getFrameContentSize c inp
                         else ZSTD_getDecompressedSize c inp)
          in if known \<and> out_len = ZSTD_CONTENTSIZE_UNKNOWN then Inr None
             else if known \<and> out_len = ZSTD_CONTENTSIZE_ERROR
             then Inl (ERROR ''ZSTD_getFrameContentSize failed'')
             else if out_len > PG_INT32_MAX
             then Inl (ERROR ''ZSTD_getDecompressedSize returned value greater than PG_INT32_MAX'')
             else Inr (Some (ucast out_len)))"

section \<open>What the program relies on\<close>

text \<open>
  PostgreSQL's allocator grants a request of at most \<open>MaxAllocSize\<close> bytes (one byte
  less than 1 GB) and raises \<open>ERROR\<close> for a larger one; a bytea is such a chunk, so
  its data is shorter than that.
\<close>

definition MaxAllocSize :: nat where
  "MaxAllocSize = 0x3fffffff"

definition postgres_allocator :: "host \<Rightarrow> bool" where
  "postgres_allocator h \<longleftrightarrow>
     (\<forall>n. (palloc h n = None \<longleftrightarrow> unat n \<le> MaxAllocSize) \<and>
          (repalloc h n = None \<longleftrightarrow> unat n \<le> MaxAllocSize))"

text \<open>
  The contract of libzstd's one-shot functions, for sources that fit a bytea and the
  levels \<open>valid\<close> admits. With a context and a destination of at least
  \<open>ZSTD_compressBound(srcSize)\<close> bytes, compression succeeds; it returns the number of
  bytes it stored, which never exceeds the capacity and is not zero (a frame starts with
  its magic number); both size queries report the length of the source for that frame;
  and decompression with the same dictionary into a destination of that length stores
  the source and returns its length.
\<close>

definition zstd_contract :: "zstd \<Rightarrow> (int32 \<Rightarrow> bool) \<Rightarrow> bool" where
  "zstd_contract c valid \<longleftrightarrow>
     (\<forall>cc src dict level cap.
        cc \<noteq> None \<and> length src \<le> MaxAllocSize \<and> valid level \<and>
        ZSTD_compressBound c (of_nat (length src)) \<le> cap \<longrightarrow>
        (let (ret, frame) = ZSTD_compress_usingDict c cc cap src dict level
         in \<not> ZSTD_isError c ret \<and> length frame = unat ret \<and> ret \<le> cap \<and> frame \<noteq> [] \<and>
            ZSTD_getFrameContentSize c frame = of_nat (length src) \<and>
            ZSTD_getDecompressedSize c frame = of_nat (length src) \<and>
            \<not> ZSTD_isError c (of_nat (length src)) \<and>
            (\<forall>dc. dc \<noteq> None \<longrightarrow>
               ZSTD_decompress_usingDict c dc (of_nat (length src)) frame dict =
                 (of_nat (length src), src))))"

text \<open>
  The part of that contract that speaks only of calls that did not fail, whatever the
  dictionary and the level: when \<open>ZSTD_compress_usingDict\<close> reports no error, the
  first \<open>ret\<close> bytes at \<open>dst\<close> are the frame (the codec may have touched more of the
  destination); both size queries report the length of the source for it, and
  decompression of it with the same dictionary into a destination of that length stores
  the source and returns its length.
\<close>

definition zstd_frames :: "zstd \<Rightarrow> bool" where
  "zstd_frames c \<longleftrightarrow>
     (\<forall>cc src dict level cap ret written.
        cc \<noteq> None \<and> length src \<le> MaxAllocSize \<and>
        ZSTD_compress_usingDict c cc cap src dict level = (ret, written) \<and>
        \<not> ZSTD_isError c ret \<longrightarrow>
        unat ret \<le> length written \<and>
        ZSTD_getFrameContentSize c (take (unat ret) written) = of_nat (length src) \<and>
        ZSTD_getDecompressedSize c (take (unat ret) written) = of_nat (length src) \<and>
        \<not> ZSTD_isError c (of_nat (length src)) \<and>
        (\<forall>dc. dc \<noteq> None \<longrightarrow>
           ZSTD_decompress_usingDict c dc (of_nat (length src)) (take (unat ret) written) dict =
             (of_nat (length src), src)))"

text \<open>
  Whether a failure carries the codec's description of an error code: the message ends
  with \<open>ZSTD_getErrorName\<close> of that code, as the format \<open>"...: %s"\<close> produces.
\<close>

definition ends_with :: "string \<Rightarrow> string \<Rightarrow> bool" where
  "ends_with msg name \<longleftrightarrow>
     length name \<le> length msg \<and> drop (length msg - length name) msg = name"

definition carries_description :: "zstd \<Rightarrow> size_t \<Rightarrow> failure \<Rightarrow> bool" where
  "carries_description c code f =
     (case f of ERROR msg \<Rightarrow> ends_with msg (ZSTD_getErrorName c code) | _ \<Rightarrow> False)"

section \<open>The codec calls of the three functions\<close>

text \<open>
  Names for what the functions ask of the codec: the size query of \<open>decompress\<close>
  and \<open>length\<close> in the preprocessor branch that is compiled, its two special
  answers, and the calls of \<open>ZSTD_compress_usingDict\<close> and
  \<open>ZSTD_decompress_usingDict\<close> with the arguments the functions pass.
\<close>

definition size_query :: "zstd \<Rightarrow> byte list \<Rightarrow> 64 word" where
  "size_query c inp =
     (if CONTENTSIZE_UNKNOWN_defined c then ZSTD_getFrameContentSize c inp
      else ZSTD_getDecompressedSize c inp)"

definition size_unknown :: "zstd \<Rightarrow> byte list \<Rightarrow> bool" where
  "size_unknown c inp \<longleftrightarrow>
     CONTENTSIZE_UNKNOWN_defined c \<and> ZSTD_getFrameContentSize c inp = ZSTD_CONTENTSIZE_UNKNOWN"

definition size_error :: "zstd \<Rightarrow> byte list \<Rightarrow> bool" where
  "size_error c inp \<longleftrightarrow>
     CONTENTSIZE_UNKNOWN_defined c \<and> ZSTD_getFrameContentSize c inp = ZSTD_CONTENTSIZE_ERROR"

definition compress_call ::
  "zstd \<Rightarrow> state \<Rightarrow> byte list \<Rightarrow> byte list option \<Rightarrow> int32 option \<Rightarrow> size_t \<times> byte list" where
  "compress_call c s inp d l =
     ZSTD_compress_usingDict c (cctx s) (ZSTD_compressBound c (of_nat (length inp))) inp d
       (case l of None \<Rightarrow> DEFAULT_COMPRESSION_LEVEL | Some v \<Rightarrow> v)"

definition decompress_call ::
  "zstd \<Rightarrow> state \<Rightarrow> byte list \<Rightarrow> byte list option \<Rightarrow> size_t \<times> byte list" where
  "decompress_call c s inp d = ZSTD_decompress_usingDict c (dctx s) (size_query c inp) inp d"

section \<open>A codec and a host to run the program on\<close>

text \<open>
  A codec that keeps libzstd's interface and stores the data as it is. A frame is the
  magic number, a flag byte, the content size in eight little-endian bytes when the flag
  is not zero, and the data. Levels above 22 are refused. Error codes are libzstd's:
  \<open>(size_t)-code\<close>, an error being any result above \<open>(size_t)-120\<close>. Like libzstd,
  decompression stores the blocks first and compares the amount with the declared
  content size afterwards.
\<close>

fun le_bytes :: "nat \<Rightarrow> 64 word \<Rightarrow> byte list" where
  "le_bytes 0 w = []"
| "le_bytes (Suc n) w = ucast w # le_bytes n (drop_bit 8 w)"

fun le_word :: "byte list \<Rightarrow> 64 word" where
  "le_word [] = 0"
| "le_word (b # bs) = ucast b OR push_bit 8 (le_word bs)"

definition zstd_error :: "nat \<Rightarrow> size_t" where
  "zstd_error code = 0 - of_nat code"

definition plain_frame :: "byte list \<Rightarrow> byte list" where
  "plain_frame src = [0x28, 0xB5, 0x2F, 0xFD, 1] @ le_bytes 8 (of_nat (length src)) @ src"

definition plain_header :: "byte list \<Rightarrow> (64 word option \<times> byte list) option" where
  "plain_header frame =
     (if length frame < 5 \<or> take 4 frame \<noteq> [0x28, 0xB5, 0x2F, 0xFD] then None
      else if frame ! 4 = 0 then Some (None, drop 5 frame)
      else if length frame < 13 then None
      else Some (Some (le_word (take 8 (drop 5 frame))), drop 13 frame))"

definition plain_compress ::
  "ptr option \<Rightarrow> size_t \<Rightarrow> byte list \<Rightarrow> byte list option \<Rightarrow> int32 \<Rightarrow> size_t \<times> byte list" where
  "plain_compress cc cap src dict level =
     (if 22 < sint level then (zstd_error 42, [])
      else if unat cap < length src + 13 then (zstd_error 70, [])
      else (of_nat (length src) + 13, plain_frame src))"

definition plain_decompress ::
  "ptr option \<Rightarrow> size_t \<Rightarrow> byte list \<Rightarrow> byte list option \<Rightarrow> size_t \<times> byte list" where
  "plain_decompress dc cap frame dict =
     (case plain_header frame of
        None \<Rightarrow> (zstd_error 10, [])
      | Some (fcs, body) \<Rightarrow>
          if unat cap < length body then (zstd_error 70, [])
          else if fcs \<noteq> None \<and> fcs \<noteq> Some (of_nat (length body)) then (zstd_error 20, body)
          else (of_nat (length body), body))"

definition plain_getFrameContentSize :: "byte list \<Rightarrow> 64 word" where
  "plain_getFrameContentSize frame =
     (case plain_header frame of
        None \<Rightarrow> ZSTD_CONTENTSIZE_ERROR
      | Some (None, body) \<Rightarrow> ZSTD_CONTENTSIZE_UNKNOWN
      | Some (Some n, body) \<Rightarrow> n)"

definition plain_getDecompressedSize :: "byte list \<Rightarrow> 64 word" where
  "plain_getDecompressedSize frame =
     (case plain_header frame of
        None \<Rightarrow> 0
      | Some (None, body) \<Rightarrow> 0
      | Some (Some n, body) \<Rightarrow> n)"

definition plain_isError :: "size_t \<Rightarrow> bool" where
  "plain_isError code \<longleftrightarrow> zstd_error 120 < code"

definition plain_getErrorName :: "size_t \<Rightarrow> string" where
  "plain_getErrorName code =
     (if \<not> plain_isError code then ''No error detected''
      else if code = zstd_error 10 then ''Unknown frame descriptor''
      else if code = zstd_error 20 then ''Data corruption detected''
      else if code = zstd_error 42 then ''Parameter is out of bound''
      else if code = zstd_error 70 then ''Destination buffer is too small''
      else ''Unspecified error code'')"

definition plain_zstd :: zstd where
  "plain_zstd =
     \<lparr>ZSTD_compressBound = (\<lambda>n. n + 13),
      ZSTD_compress_usingDict = plain_compress,
      ZSTD_decompress_usingDict = plain_decompress,
      ZSTD_getFrameContentSize = plain_getFrameContentSize,
      ZSTD_getDecompressedSize = plain_getDecompressedSize,
      ZSTD_isError = plain_isError,
      ZSTD_getErrorName = plain_getErrorName,
      CONTENTSIZE_UNKNOWN_defined = True\<rparr>"





definition pg_palloc :: "size_t \<Rightarrow> string option" where
  "pg_palloc n =
     (if unat n \<le> MaxAllocSize then None else Some ''invalid memory alloc request size'')"

definition pg_host :: host where
  "pg_host = \<lparr>palloc = pg_palloc, repalloc = pg_palloc, uninit = (\<lambda>i. 0x7F)\<rparr>"

text \<open>The process after a successful \<open>_PG_init\<close>.\<close>

definition loaded :: state where
  "loaded = snd (PG_init True True unloaded)"

section \<open>Arithmetic of sizes\<close>

lemma unat_small: "n \<le> MaxAllocSize \<Longrightarrow> unat (of_nat n :: size_t) = n"
  by (simp add: MaxAllocSize_def unat_of_nat)

lemma unat_small_plus: "n \<le> MaxAllocSize \<Longrightarrow> unat (of_nat n + 13 :: size_t) = n + 13"
  by (simp add: MaxAllocSize_def unat_word_ariths unat_of_nat)

lemma small_sum:
  assumes "unat (w :: size_t) + 4 \<le> MaxAllocSize"
  shows "unat (w + VARHDRSZ) = unat w + 4"
  using assms by (simp add: VARHDRSZ_def unat_word_ariths MaxAllocSize_def)

lemma unat_plus_le: "unat (w + VARHDRSZ) \<le> unat w + 4"
  by (simp add: VARHDRSZ_def unat_word_ariths)



text \<open>When \<open>w + VARHDRSZ\<close> is not below \<open>VARHDRSZ\<close>, the addition did not wrap around.\<close>

lemma unat_plus_VARHDRSZ:
  assumes "\<not> unat (w + VARHDRSZ) < unat VARHDRSZ"
  shows "unat (w + VARHDRSZ) = unat w + 4"
proof -
  define n where "n = unat w"
  have lt: "n < 18446744073709551616"
    using unsigned_less [of w] by (simp add: n_def)
  have eq: "unat (w + VARHDRSZ) = (n + 4) mod 18446744073709551616"
    by (simp add: VARHDRSZ_def unat_word_ariths n_def)
  have ge: "4 \<le> (n + 4) mod 18446744073709551616"
    using assms eq by (simp add: VARHDRSZ_def)
  have "n + 4 < 18446744073709551616"
  proof (rule ccontr)
    assume "\<not> n + 4 < 18446744073709551616"
    then have "(n + 4) mod 18446744073709551616 = n + 4 - 18446744073709551616"
      using lt by (simp add: le_mod_geq)
    with ge lt show False by arith
  qed
  with eq show ?thesis by (simp add: n_def)
qed

lemma small_not_sentinel:
  assumes "n \<le> MaxAllocSize"
  shows "(of_nat n :: 64 word) \<noteq> ZSTD_CONTENTSIZE_UNKNOWN"
    and "(of_nat n :: 64 word) \<noteq> ZSTD_CONTENTSIZE_ERROR"
    and "\<not> (of_nat n :: 64 word) > PG_INT32_MAX"
proof -
  have u: "unat (of_nat n :: 64 word) = n"
    using assms by (rule unat_small)
  have "unat ZSTD_CONTENTSIZE_UNKNOWN > MaxAllocSize"
    by (simp add: ZSTD_CONTENTSIZE_UNKNOWN_def MaxAllocSize_def unsigned_minus_1_eq_mask
        mask_eq_exp_minus_1)
  with u assms show "(of_nat n :: 64 word) \<noteq> ZSTD_CONTENTSIZE_UNKNOWN"
    by auto
  have "unat ZSTD_CONTENTSIZE_ERROR > MaxAllocSize"
    by (simp add: ZSTD_CONTENTSIZE_ERROR_def MaxAllocSize_def)
  with u assms show "(of_nat n :: 64 word) \<noteq> ZSTD_CONTENTSIZE_ERROR"
    by auto
  show "\<not> (of_nat n :: 64 word) > PG_INT32_MAX"
    using u assms by (simp add: word_less_nat_alt PG_INT32_MAX_def MaxAllocSize_def)
qed

section \<open>The length word\<close>

lemma VARSIZE_mod: "VARSIZE w = unat w mod 2 ^ 30"
proof -
  have "(0x3FFFFFFF :: size_t) = mask 30"
    by (simp add: mask_eq_exp_minus_1)
  then have "VARSIZE w = unat (take_bit 30 w)"
    by (simp add: VARSIZE_def take_bit_eq_mask)
  then show ?thesis
    by (simp add: unsigned_take_bit_eq take_bit_eq_mod unat_mod)
qed

lemma VARSIZE_small: "unat w \<le> MaxAllocSize \<Longrightarrow> VARSIZE w = unat w"
  by (simp add: VARSIZE_mod MaxAllocSize_def)

lemma VARDATA_exact:
  assumes "\<not> unat (w + VARHDRSZ) < unat VARHDRSZ" "unat (w + VARHDRSZ) \<le> MaxAllocSize"
  shows "VARDATA h (w + VARHDRSZ) written =
           take (unat w) (written @ map (uninit h) [length written..<unat w])"
  using assms unat_plus_VARHDRSZ [OF assms(1)]
  by (simp add: VARDATA_def VARSIZE_small VARHDRSZ_def Let_def)

lemma VARDATA_stored:
  assumes "\<not> unat (w + VARHDRSZ) < unat VARHDRSZ" "unat (w + VARHDRSZ) \<le> MaxAllocSize"
    and "length written = unat w"
  shows "VARDATA h (w + VARHDRSZ) written = written"
  using assms by (simp add: VARDATA_exact)

section \<open>When compress and decompress return a value\<close>

lemma compress_success:
  assumes h: "postgres_allocator h"
    and ok: "compress c h s (Some b) d l = Inr (Some out)"
    and call: "ZSTD_compress_usingDict c (cctx s) (ZSTD_compressBound c (of_nat (length b))) b d
                 (case l of None \<Rightarrow> DEFAULT_COMPRESSION_LEVEL | Some v \<Rightarrow> v) = (ret, written)"
  shows "palloc h (ZSTD_compressBound c (of_nat (length b)) + VARHDRSZ) = None"
    and "stays_inside (ZSTD_compressBound c (of_nat (length b)) + VARHDRSZ) written"
    and "\<not> ZSTD_isError c ret"
    and "repalloc h (ret + VARHDRSZ) = None"
    and "unat (ret + VARHDRSZ) = unat ret + 4"
    and "unat ret + 4 \<le> MaxAllocSize"
    and "out = take (unat ret) (written @ map (uninit h) [length written..<unat ret])"
proof -
  from ok call show p: "palloc h (ZSTD_compressBound c (of_nat (length b)) + VARHDRSZ) = None"
    by (simp add: compress_def Let_def split: option.splits)
  from ok call p show i: "stays_inside (ZSTD_compressBound c (of_nat (length b)) + VARHDRSZ) written"
    by (simp add: compress_def Let_def split: if_splits)
  from ok call p i show e: "\<not> ZSTD_isError c ret"
    by (simp add: compress_def Let_def split: if_splits)
  from ok call p i e show r: "repalloc h (ret + VARHDRSZ) = None"
    by (simp add: compress_def Let_def split: option.splits)
  from ok call p i e r have n: "\<not> unat (ret + VARHDRSZ) < unat VARHDRSZ"
    by (simp add: compress_def Let_def split: if_splits)
  then show u: "unat (ret + VARHDRSZ) = unat ret + 4"
    by (rule unat_plus_VARHDRSZ)
  from h r have m: "unat (ret + VARHDRSZ) \<le> MaxAllocSize"
    by (simp add: postgres_allocator_def)
  with u show "unat ret + 4 \<le> MaxAllocSize" by simp
  from ok call p i e r n have "out = VARDATA h (ret + VARHDRSZ) written"
    by (simp add: compress_def Let_def)
  with n m show "out = take (unat ret) (written @ map (uninit h) [length written..<unat ret])"
    by (simp add: VARDATA_exact)
qed

lemma compress_returns:
  assumes h: "postgres_allocator h"
    and fits: "unat (ZSTD_compressBound c (of_nat (length b))) + 4 \<le> MaxAllocSize"
    and call: "ZSTD_compress_usingDict c (cctx s) (ZSTD_compressBound c (of_nat (length b))) b d
                 (case l of None \<Rightarrow> DEFAULT_COMPRESSION_LEVEL | Some v \<Rightarrow> v) = (ret, written)"
    and good: "\<not> ZSTD_isError c ret" "length written = unat ret"
      "ret \<le> ZSTD_compressBound c (of_nat (length b))"
  shows "compress c h s (Some b) d l = Inr (Some written)"
proof -
  let ?bound = "ZSTD_compressBound c (of_nat (length b))"
  have ub: "unat (?bound + VARHDRSZ) = unat ?bound + 4"
    using fits by (rule small_sum)
  have le: "unat ret \<le> unat ?bound"
    using good(3) by (simp add: word_le_nat_alt)
  with fits have ur: "unat (ret + VARHDRSZ) = unat ret + 4"
    by (intro small_sum) simp
  have p: "palloc h (?bound + VARHDRSZ) = None"
    using h fits ub by (simp add: postgres_allocator_def)
  have r: "repalloc h (ret + VARHDRSZ) = None"
    using h fits le ur by (simp add: postgres_allocator_def)
  have i: "stays_inside (?bound + VARHDRSZ) written"
    using le good(2) ub by (simp add: stays_inside_def VARHDRSZ_def)
  have n: "\<not> unat (ret + VARHDRSZ) < unat VARHDRSZ"
    using ur by (simp add: VARHDRSZ_def)
  have v: "VARDATA h (ret + VARHDRSZ) written = written"
    using n good(2) fits le ur by (intro VARDATA_stored) simp_all
  show ?thesis
    using call p r i n v good(1) by (simp add: compress_def Let_def)
qed

lemma decompress_returns:
  assumes h: "postgres_allocator h"
    and len: "length b + 4 \<le> MaxAllocSize"
    and size: "ZSTD_getFrameContentSize c frame = of_nat (length b)"
      "ZSTD_getDecompressedSize c frame = of_nat (length b)"
    and call: "ZSTD_decompress_usingDict c (dctx s) (of_nat (length b)) frame d =
                 (of_nat (length b), b)"
    and good: "\<not> ZSTD_isError c (of_nat (length b))"
  shows "decompress c h s (Some frame) d = Inr (Some b)"
proof -
  let ?n = "of_nat (length b) :: size_t"
  have le: "length b \<le> MaxAllocSize" using len by simp
  have u: "unat ?n = length b" using le by (rule unat_small)
  have s: "unat (?n + VARHDRSZ) = length b + 4"
    using len u small_sum [of ?n] by simp
  have p: "palloc h (?n + VARHDRSZ) = None"
    using h len s by (simp add: postgres_allocator_def)
  have i: "stays_inside (?n + VARHDRSZ) b"
    using s by (simp add: stays_inside_def VARHDRSZ_def)
  have n: "\<not> unat (?n + VARHDRSZ) < unat VARHDRSZ"
    using s by (simp add: VARHDRSZ_def)
  have v: "VARDATA h (?n + VARHDRSZ) b = b"
    using n s len u by (intro VARDATA_stored) simp_all
  show ?thesis
    using size call good p i n v small_not_sentinel(1,2) [OF le]
    by (simp add: decompress_def Let_def)
qed



section \<open>The plain codec keeps the contract\<close>

lemma loaded_eq: "loaded = \<lparr>cctx = Some 1, dctx = Some 2, live = [2, 1]\<rparr>"
  by (simp add: loaded_def PG_init_def unloaded_def ZSTD_createCCtx_def ZSTD_createDCtx_def
      fresh_def)

lemma length_le_bytes: "length (le_bytes n w) = n"
  by (induction n arbitrary: w) auto

lemma le_word_le_bytes: "le_word (le_bytes n w) = take_bit (8 * n) w"
proof (induction n arbitrary: w)
  case 0
  then show ?case by simp
next
  case (Suc n)
  have "ucast (ucast w :: byte) OR push_bit 8 (take_bit (8 * n) (drop_bit 8 w)) =
          take_bit (8 * Suc n) w"
    by (rule bit_word_eqI) (auto simp add: bit_simps)
  with Suc show ?case by simp
qed

lemma le_word_le_bytes8: "le_word (le_bytes 8 w) = w"
  by (simp add: le_word_le_bytes take_bit_word_eq_self)

lemma plain_header_frame:
  "plain_header (plain_frame src) = Some (Some (of_nat (length src)), src)"
  by (simp add: plain_header_def plain_frame_def length_le_bytes le_word_le_bytes8)

lemma small_not_error: "unat (w :: size_t) \<le> 2 * MaxAllocSize \<Longrightarrow> \<not> plain_isError w"
  by (simp add: plain_isError_def zstd_error_def MaxAllocSize_def word_less_nat_alt)

lemma plain_zstd_contract: "zstd_contract plain_zstd (\<lambda>l. sint l \<le> 22)"
  unfolding zstd_contract_def
proof (intro allI impI, elim conjE)
  fix cc :: "ptr option" and src :: "byte list" and dict :: "byte list option"
    and level :: int32 and cap :: size_t
  assume len: "length src \<le> MaxAllocSize"
    and lvl: "sint level \<le> 22"
    and cap: "ZSTD_compressBound plain_zstd (of_nat (length src)) \<le> cap"
  from cap len have c: "length src + 13 \<le> unat cap"
    by (simp add: plain_zstd_def word_le_nat_alt unat_small_plus)
  have r: "of_nat (length src) + 13 \<le> cap"
    using cap by (simp add: plain_zstd_def)
  have e1: "\<not> plain_isError (of_nat (length src) + 13)"
    by (rule small_not_error) (use len in \<open>simp add: unat_small_plus MaxAllocSize_def\<close>)
  have e2: "\<not> plain_isError (of_nat (length src))"
    by (rule small_not_error) (use len in \<open>simp add: unat_small MaxAllocSize_def\<close>)
  have f: "length (plain_frame src) = length src + 13" "plain_frame src \<noteq> []"
    by (simp_all add: plain_frame_def length_le_bytes)
  show "let (ret, frame) = ZSTD_compress_usingDict plain_zstd cc cap src dict level
         in \<not> ZSTD_isError plain_zstd ret \<and> length frame = unat ret \<and> ret \<le> cap \<and> frame \<noteq> [] \<and>
            ZSTD_getFrameContentSize plain_zstd frame = of_nat (length src) \<and>
            ZSTD_getDecompressedSize plain_zstd frame = of_nat (length src) \<and>
            \<not> ZSTD_isError plain_zstd (of_nat (length src)) \<and>
            (\<forall>dc. dc \<noteq> None \<longrightarrow>
               ZSTD_decompress_usingDict plain_zstd dc (of_nat (length src)) frame dict =
                 (of_nat (length src), src))"
    using c r e1 e2 f len lvl
    by (simp add: plain_zstd_def plain_compress_def plain_getFrameContentSize_def
        plain_getDecompressedSize_def plain_decompress_def plain_header_frame
        unat_small unat_small_plus)
qed

lemma pg_host_allocator: "postgres_allocator pg_host"
  by (simp add: postgres_allocator_def pg_host_def pg_palloc_def)

lemma plain_refusals:
  "plain_isError (zstd_error 42)" "plain_isError (zstd_error 70)" "plain_isError (zstd_error 30)"
  by (simp_all add: plain_isError_def zstd_error_def)

lemma plain_compress_frames:
  assumes len: "length src \<le> MaxAllocSize"
    and call: "plain_compress cc cap src dict level = (ret, written)"
    and ok: "\<not> plain_isError ret"
  shows "ret = of_nat (length src) + 13" and "written = plain_frame src"
    and "unat ret = length written"
proof -
  from call ok plain_refusals show r: "ret = of_nat (length src) + 13"
    by (auto simp add: plain_compress_def split: if_splits)
  from call ok plain_refusals show w: "written = plain_frame src"
    by (auto simp add: plain_compress_def split: if_splits)
  show "unat ret = length written"
    using len by (simp add: r w unat_small_plus plain_frame_def length_le_bytes)
qed

lemma plain_frames_hold:
  assumes len: "length src \<le> MaxAllocSize"
    and call: "plain_compress cc cap src dict level = (ret, written)"
    and ok: "\<not> plain_isError ret"
  shows "unat ret \<le> length written \<and>
        plain_getFrameContentSize (take (unat ret) written) = of_nat (length src) \<and>
        plain_getDecompressedSize (take (unat ret) written) = of_nat (length src) \<and>
        \<not> plain_isError (of_nat (length src)) \<and>
        (\<forall>dc. dc \<noteq> None \<longrightarrow>
           plain_decompress dc (of_nat (length src)) (take (unat ret) written) dict =
             (of_nat (length src), src))"
proof -
  note k = plain_compress_frames [OF len call ok]
  have t: "take (unat ret) written = plain_frame src"
    using k(2) k(3) by simp
  have e: "\<not> plain_isError (of_nat (length src))"
    by (rule small_not_error) (use len in \<open>simp add: unat_small MaxAllocSize_def\<close>)
  have "unat ret \<le> length written"
    using k(3) by simp
  then show ?thesis
    unfolding t using e len
    by (simp add: plain_getFrameContentSize_def plain_getDecompressedSize_def
        plain_decompress_def plain_header_frame unat_small)
qed

lemma plain_zstd_frames: "zstd_frames plain_zstd"
  unfolding zstd_frames_def
proof (intro allI impI, elim conjE)
  fix cc :: "ptr option" and src :: "byte list" and dict :: "byte list option"
    and level :: int32 and cap ret :: size_t and written :: "byte list"
  assume len: "length src \<le> MaxAllocSize"
    and call: "ZSTD_compress_usingDict plain_zstd cc cap src dict level = (ret, written)"
    and ok: "\<not> ZSTD_isError plain_zstd ret"
  from call have c: "plain_compress cc cap src dict level = (ret, written)"
    by (simp add: plain_zstd_def)
  from ok have o: "\<not> plain_isError ret"
    by (simp add: plain_zstd_def)
  from plain_frames_hold [OF len c o]
  show "unat ret \<le> length written \<and>
        ZSTD_getFrameContentSize plain_zstd (take (unat ret) written) = of_nat (length src) \<and>
        ZSTD_getDecompressedSize plain_zstd (take (unat ret) written) = of_nat (length src) \<and>
        \<not> ZSTD_isError plain_zstd (of_nat (length src)) \<and>
        (\<forall>dc. dc \<noteq> None \<longrightarrow>
           ZSTD_decompress_usingDict plain_zstd dc (of_nat (length src)) (take (unat ret) written) dict =
             (of_nat (length src), src))"
    by (simp add: plain_zstd_def)
qed


section \<open>The contract at the call of compress\<close>


lemma frames_call:
  assumes c: "zstd_frames c"
    and ctx: "cc \<noteq> None"
    and len: "length b \<le> MaxAllocSize"
    and call: "ZSTD_compress_usingDict c cc cap b d level = (ret, written)"
    and ok: "\<not> ZSTD_isError c ret"
  shows "unat ret \<le> length written"
    and "ZSTD_getFrameContentSize c (take (unat ret) written) = of_nat (length b)"
    and "ZSTD_getDecompressedSize c (take (unat ret) written) = of_nat (length b)"
    and "\<not> ZSTD_isError c (of_nat (length b))"
    and "dc \<noteq> None \<Longrightarrow>
           ZSTD_decompress_usingDict c dc (of_nat (length b)) (take (unat ret) written) d =
             (of_nat (length b), b)"
proof -
  have all: "unat ret \<le> length written \<and>
        ZSTD_getFrameContentSize c (take (unat ret) written) = of_nat (length b) \<and>
        ZSTD_getDecompressedSize c (take (unat ret) written) = of_nat (length b) \<and>
        \<not> ZSTD_isError c (of_nat (length b)) \<and>
        (\<forall>dc. dc \<noteq> None \<longrightarrow>
           ZSTD_decompress_usingDict c dc (of_nat (length b)) (take (unat ret) written) d =
             (of_nat (length b), b))"
    using c ctx len call ok unfolding zstd_frames_def by blast
  from all show "unat ret \<le> length written" by blast
  from all show "ZSTD_getFrameContentSize c (take (unat ret) written) = of_nat (length b)" by blast
  from all show "ZSTD_getDecompressedSize c (take (unat ret) written) = of_nat (length b)" by blast
  from all show "\<not> ZSTD_isError c (of_nat (length b))" by blast
  from all show "dc \<noteq> None \<Longrightarrow>
           ZSTD_decompress_usingDict c dc (of_nat (length b)) (take (unat ret) written) d =
             (of_nat (length b), b)" by blast
qed

section \<open>The plain codec on concrete inputs\<close>

lemma le_bytes_8:
  "le_bytes 8 w =
     [ucast w, ucast (drop_bit 8 w), ucast (drop_bit 16 w), ucast (drop_bit 24 w),
      ucast (drop_bit 32 w), ucast (drop_bit 40 w), ucast (drop_bit 48 w), ucast (drop_bit 56 w)]"
proof -
  have "le_bytes (Suc (Suc (Suc (Suc (Suc (Suc (Suc (Suc 0)))))))) w =
     [ucast w, ucast (drop_bit 8 w), ucast (drop_bit 16 w), ucast (drop_bit 24 w),
      ucast (drop_bit 32 w), ucast (drop_bit 40 w), ucast (drop_bit 48 w), ucast (drop_bit 56 w)]"
    by (simp add: drop_bit_drop_bit)
  moreover have "Suc (Suc (Suc (Suc (Suc (Suc (Suc (Suc 0))))))) = 8"
    by simp
  ultimately show ?thesis by simp
qed

lemma plain_frame_ABC:
  "plain_frame [0x41, 0x42, 0x43] =
     [0x28, 0xB5, 0x2F, 0xFD, 1, 3, 0, 0, 0, 0, 0, 0, 0, 0x41, 0x42, 0x43]"
  by (simp add: plain_frame_def le_bytes_8)

lemma plain_compress_ABC:
  "compress plain_zstd pg_host loaded (Some [0x41, 0x42, 0x43]) None None =
     Inr (Some [0x28, 0xB5, 0x2F, 0xFD, 1, 3, 0, 0, 0, 0, 0, 0, 0, 0x41, 0x42, 0x43])"
proof (rule compress_returns [OF pg_host_allocator])
  show "unat (ZSTD_compressBound plain_zstd (of_nat (length [0x41, 0x42, 0x43 :: byte]))) + 4
          \<le> MaxAllocSize"
    by (simp add: plain_zstd_def MaxAllocSize_def)
  show "ZSTD_compress_usingDict plain_zstd (cctx loaded)
          (ZSTD_compressBound plain_zstd (of_nat (length [0x41, 0x42, 0x43 :: byte])))
          [0x41, 0x42, 0x43] None
          (case None of None \<Rightarrow> DEFAULT_COMPRESSION_LEVEL | Some v \<Rightarrow> v) =
        (16, [0x28, 0xB5, 0x2F, 0xFD, 1, 3, 0, 0, 0, 0, 0, 0, 0, 0x41, 0x42, 0x43])"
    by (simp add: plain_zstd_def plain_compress_def DEFAULT_COMPRESSION_LEVEL_def
        plain_frame_ABC)
  show "\<not> ZSTD_isError plain_zstd 16"
    by (simp add: plain_zstd_def plain_isError_def zstd_error_def)
  show "length [0x28, 0xB5, 0x2F, 0xFD, 1, 3, 0, 0, 0, 0, 0, 0, 0, 0x41, 0x42, 0x43 :: byte] =
          unat (16 :: size_t)"
    by simp
  show "(16 :: size_t) \<le> ZSTD_compressBound plain_zstd (of_nat (length [0x41, 0x42, 0x43 :: byte]))"
    by (simp add: plain_zstd_def)
qed

lemma plain_compress_empty:
  "compress plain_zstd pg_host loaded (Some []) None (Some 1) =
     Inr (Some [0x28, 0xB5, 0x2F, 0xFD, 1, 0, 0, 0, 0, 0, 0, 0, 0])"
proof (rule compress_returns [OF pg_host_allocator])
  show "unat (ZSTD_compressBound plain_zstd (of_nat (length ([] :: byte list)))) + 4 \<le> MaxAllocSize"
    by (simp add: plain_zstd_def MaxAllocSize_def)
  show "ZSTD_compress_usingDict plain_zstd (cctx loaded)
          (ZSTD_compressBound plain_zstd (of_nat (length ([] :: byte list)))) [] None
          (case Some 1 of None \<Rightarrow> DEFAULT_COMPRESSION_LEVEL | Some v \<Rightarrow> v) =
        (13, [0x28, 0xB5, 0x2F, 0xFD, 1, 0, 0, 0, 0, 0, 0, 0, 0])"
    by (simp add: plain_zstd_def plain_compress_def plain_frame_def le_bytes_8)
  show "\<not> ZSTD_isError plain_zstd 13"
    by (simp add: plain_zstd_def plain_isError_def zstd_error_def)
  show "length [0x28, 0xB5, 0x2F, 0xFD, 1, 0, 0, 0, 0, 0, 0, 0, 0 :: byte] = unat (13 :: size_t)"
    by simp
  show "(13 :: size_t) \<le> ZSTD_compressBound plain_zstd (of_nat (length ([] :: byte list)))"
    by (simp add: plain_zstd_def)
qed

lemma plain_compress_ABC_dict:
  "compress plain_zstd pg_host loaded (Some [0x41, 0x42, 0x43]) (Some [7, 7]) (Some 19) =
     Inr (Some [0x28, 0xB5, 0x2F, 0xFD, 1, 3, 0, 0, 0, 0, 0, 0, 0, 0x41, 0x42, 0x43])"
proof (rule compress_returns [OF pg_host_allocator])
  show "unat (ZSTD_compressBound plain_zstd (of_nat (length [0x41, 0x42, 0x43 :: byte]))) + 4
          \<le> MaxAllocSize"
    by (simp add: plain_zstd_def MaxAllocSize_def)
  show "ZSTD_compress_usingDict plain_zstd (cctx loaded)
          (ZSTD_compressBound plain_zstd (of_nat (length [0x41, 0x42, 0x43 :: byte])))
          [0x41, 0x42, 0x43] (Some [7, 7])
          (case Some 19 of None \<Rightarrow> DEFAULT_COMPRESSION_LEVEL | Some v \<Rightarrow> v) =
        (16, [0x28, 0xB5, 0x2F, 0xFD, 1, 3, 0, 0, 0, 0, 0, 0, 0, 0x41, 0x42, 0x43])"
    by (simp add: plain_zstd_def plain_compress_def plain_frame_ABC)
  show "\<not> ZSTD_isError plain_zstd 16"
    by (simp add: plain_zstd_def plain_isError_def zstd_error_def)
  show "length [0x28, 0xB5, 0x2F, 0xFD, 1, 3, 0, 0, 0, 0, 0, 0, 0, 0x41, 0x42, 0x43 :: byte] =
          unat (16 :: size_t)"
    by simp
  show "(16 :: size_t) \<le> ZSTD_compressBound plain_zstd (of_nat (length [0x41, 0x42, 0x43 :: byte]))"
    by (simp add: plain_zstd_def)
qed

lemma plain_compress_too_large:
  assumes "length b = 1073741819"
  shows "compress plain_zstd pg_host s (Some b) d l =
           Inl (ERROR ''invalid memory alloc request size'')"
  using assms
  by (simp add: compress_def plain_zstd_def pg_host_def pg_palloc_def VARHDRSZ_def
      MaxAllocSize_def Let_def)





section \<open>Absent arguments\<close>

text \<open>
  Claim C4. In each of the three functions a NULL input gives a NULL result and no
  error. Conversely \<open>compress\<close> and \<open>decompress\<close> return NULL only for a NULL input,
  and \<open>length\<close> returns NULL only for a NULL input or, where zstd.h defines
  \<open>ZSTD_CONTENTSIZE_UNKNOWN\<close>, for a frame whose content size the codec reports as
  unknown.
\<close>

theorem absent_input_absent_result:
  "compress c h s None d l = Inr None \<and>
   decompress c h s None d = Inr None \<and>
   length_zstd c None = Inr None \<and>
   (compress c h s i d l = Inr None \<longleftrightarrow> i = None) \<and>
   (decompress c h s i d = Inr None \<longleftrightarrow> i = None) \<and>
   (length_zstd c i = Inr None \<longleftrightarrow>
      i = None \<or>
      (\<exists>b. i = Some b \<and> CONTENTSIZE_UNKNOWN_defined c \<and>
           ZSTD_getFrameContentSize c b = ZSTD_CONTENTSIZE_UNKNOWN))"
proof (intro conjI)
  show "compress c h s None d l = Inr None"
    by (simp add: compress_def)
  show "decompress c h s None d = Inr None"
    by (simp add: decompress_def)
  show "length_zstd c None = Inr None"
    by (simp add: length_zstd_def)
  show "compress c h s i d l = Inr None \<longleftrightarrow> i = None"
    by (cases i) (simp_all add: compress_def Let_def split: option.splits prod.splits)
  show "decompress c h s i d = Inr None \<longleftrightarrow> i = None"
    by (cases i) (simp_all add: decompress_def Let_def split: option.splits prod.splits)
  show "length_zstd c i = Inr None \<longleftrightarrow>
      i = None \<or>
      (\<exists>b. i = Some b \<and> CONTENTSIZE_UNKNOWN_defined c \<and>
           ZSTD_getFrameContentSize c b = ZSTD_CONTENTSIZE_UNKNOWN)"
    by (cases i) (simp_all add: length_zstd_def Let_def)
qed

text \<open>
  Claim C9. A call of \<open>compress\<close> with a NULL level is the call with level 3, the value
  of \<open>DEFAULT_COMPRESSION_LEVEL\<close>: same result, same failure.
\<close>

theorem absent_level_is_default:
  "DEFAULT_COMPRESSION_LEVEL = 3 \<and> compress c h s i d None = compress c h s i d (Some 3)"
  by (cases i) (simp_all add: compress_def DEFAULT_COMPRESSION_LEVEL_def)

section \<open>Unknown and malformed content size\<close>

text \<open>
  Claim C6. Built against a zstd.h that defines \<open>ZSTD_CONTENTSIZE_UNKNOWN\<close>: when the
  size query reports the content size as unknown, \<open>decompress\<close> raises an error and
  \<open>length\<close> returns NULL without one; when the size query reports an error, both
  raise an error.
\<close>

theorem unknown_and_malformed_content_size:
  assumes "CONTENTSIZE_UNKNOWN_defined c"
  shows "(ZSTD_getFrameContentSize c b = ZSTD_CONTENTSIZE_UNKNOWN \<longrightarrow>
            decompress c h s (Some b) d = Inl (ERROR ''ZSTD_getFrameContentSize returned unknown'') \<and>
            length_zstd c (Some b) = Inr None) \<and>
         (ZSTD_getFrameContentSize c b = ZSTD_CONTENTSIZE_ERROR \<longrightarrow>
            decompress c h s (Some b) d = Inl (ERROR ''ZSTD_getFrameContentSize failed'') \<and>
            length_zstd c (Some b) = Inl (ERROR ''ZSTD_getFrameContentSize failed''))"
proof -
  have ne: "ZSTD_CONTENTSIZE_ERROR \<noteq> ZSTD_CONTENTSIZE_UNKNOWN"
    by (simp add: ZSTD_CONTENTSIZE_ERROR_def ZSTD_CONTENTSIZE_UNKNOWN_def)
  show ?thesis
    using assms ne by (simp add: decompress_def length_zstd_def Let_def)
qed

lemma plain_unknown:
  "ZSTD_getFrameContentSize plain_zstd [0x28, 0xB5, 0x2F, 0xFD, 0, 0x41] = ZSTD_CONTENTSIZE_UNKNOWN"
  by (simp add: plain_zstd_def plain_getFrameContentSize_def plain_header_def)

lemma plain_malformed:
  "ZSTD_getFrameContentSize plain_zstd [1, 2, 3, 4] = ZSTD_CONTENTSIZE_ERROR"
  by (simp add: plain_zstd_def plain_getFrameContentSize_def plain_header_def)

theorem unknown_and_malformed_content_size_witness:
  "CONTENTSIZE_UNKNOWN_defined plain_zstd \<and>
   ZSTD_getFrameContentSize plain_zstd [0x28, 0xB5, 0x2F, 0xFD, 0, 0x41] = ZSTD_CONTENTSIZE_UNKNOWN \<and>
   decompress plain_zstd pg_host loaded (Some [0x28, 0xB5, 0x2F, 0xFD, 0, 0x41]) None =
     Inl (ERROR ''ZSTD_getFrameContentSize returned unknown'') \<and>
   length_zstd plain_zstd (Some [0x28, 0xB5, 0x2F, 0xFD, 0, 0x41]) = Inr None \<and>
   ZSTD_getFrameContentSize plain_zstd [1, 2, 3, 4] = ZSTD_CONTENTSIZE_ERROR \<and>
   decompress plain_zstd pg_host loaded (Some [1, 2, 3, 4]) None =
     Inl (ERROR ''ZSTD_getFrameContentSize failed'') \<and>
   length_zstd plain_zstd (Some [1, 2, 3, 4]) = Inl (ERROR ''ZSTD_getFrameContentSize failed'')"
proof -
  have k: "CONTENTSIZE_UNKNOWN_defined plain_zstd"
    by (simp add: plain_zstd_def)
  show ?thesis
    using k plain_unknown plain_malformed
      unknown_and_malformed_content_size [OF k, of "[0x28, 0xB5, 0x2F, 0xFD, 0, 0x41]" pg_host loaded None]
      unknown_and_malformed_content_size [OF k, of "[1, 2, 3, 4]" pg_host loaded None]
    by simp
qed

section \<open>Unloading the module\<close>

text \<open>
  Before the module was initialised both handles are NULL and \<open>_PG_fini\<close> does
  nothing; after an initialisation that failed at the second handle it frees the first.
\<close>

lemma PG_fini_no_handles:
  assumes "cctx s = None" and "dctx s = None"
  shows "PG_fini s = Inr s"
  using assms by (simp add: PG_fini_def)

lemma PG_fini_unloaded: "PG_fini unloaded = Inr unloaded"
  by (simp add: PG_fini_def unloaded_def)

lemma PG_fini_after_failed_init:
  "PG_init False a unloaded = (Some (FATAL ''ZSTD_createCCtx failed''), unloaded)"
  "PG_fini (snd (PG_init True False unloaded)) = Inr \<lparr>cctx = Some 1, dctx = None, live = []\<rparr>"
  by (simp_all add: PG_fini_def PG_init_def unloaded_def ZSTD_createCCtx_def ZSTD_createDCtx_def
      ZSTD_freeCCtx_def fresh_def)

text \<open>
  \<open>_PG_fini\<close> leaves both variables as they are, and the handles they hold are no
  longer live: whenever one of them was not NULL, the next \<open>_PG_fini\<close> frees a freed
  handle.
\<close>

lemma PG_fini_keeps_handles:
  assumes "PG_fini s = Inr s'"
  shows "cctx s' = cctx s" and "dctx s' = dctx s"
  using assms
  by (auto simp add: PG_fini_def split: sum.splits)

lemma PG_fini_frees:
  assumes "PG_fini s = Inr s'"
  shows "\<forall>p. cctx s = Some p \<or> dctx s = Some p \<longrightarrow> p \<notin> set (live s')"
  using assms
  by (auto simp add: PG_fini_def ZSTD_freeCCtx_def ZSTD_freeDCtx_def
      split: sum.splits option.splits if_splits)

lemma PG_fini_again:
  assumes "PG_fini s = Inr s'" and "cctx s \<noteq> None \<or> dctx s \<noteq> None"
  shows "\<exists>msg. PG_fini s' = Inl (CRASH msg)"
proof (cases "cctx s")
  case (Some p)
  with assms(1) have "cctx s' = Some p" "p \<notin> set (live s')"
    using PG_fini_keeps_handles(1) [OF assms(1)] PG_fini_frees [OF assms(1)] by auto
  then show ?thesis
    by (simp add: PG_fini_def ZSTD_freeCCtx_def)
next
  case None
  with assms(2) obtain q where q: "dctx s = Some q" by auto
  with assms(1) None have "cctx s' = None" "dctx s' = Some q" "q \<notin> set (live s')"
    using PG_fini_keeps_handles [OF assms(1)] PG_fini_frees [OF assms(1)] by auto
  then show ?thesis
    by (simp add: PG_fini_def ZSTD_freeDCtx_def)
qed

lemma PG_fini_live:
  assumes "PG_fini s = Inr s'"
  shows "p \<in> set (live s') \<longleftrightarrow> p \<in> set (live s) \<and> cctx s \<noteq> Some p \<and> dctx s \<noteq> Some p"
  using assms
  by (auto simp add: PG_fini_def ZSTD_freeCCtx_def ZSTD_freeDCtx_def
      split: sum.splits option.splits if_splits)

lemma PG_fini_after_init:
  "\<exists>t. PG_fini (snd (PG_init avail_c avail_d unloaded)) = Inr t \<and> live t = []"
  by (cases avail_c; cases avail_d)
     (simp_all add: PG_fini_def PG_init_def unloaded_def ZSTD_createCCtx_def ZSTD_createDCtx_def
      ZSTD_freeCCtx_def ZSTD_freeDCtx_def fresh_def)

lemma PG_fini_loaded: "PG_fini loaded = Inr (loaded\<lparr>live := []\<rparr>)"
  by (simp add: loaded_eq PG_fini_def ZSTD_freeCCtx_def ZSTD_freeDCtx_def)

text \<open>
  Claim C3, as the code has it. \<open>_PG_fini\<close> without a successful \<open>_PG_init\<close> before
  it does not crash: never initialised, it does nothing; after an initialisation that
  failed at either handle, or succeeded, it frees what was created. It frees a handle
  only when the variable is not NULL, frees nothing else, and leaves both variables as
  they were.
\<close>

theorem PG_fini_releases_present_handles:
  "PG_fini unloaded = Inr unloaded \<and>
   (\<exists>t. PG_fini (snd (PG_init avail_c avail_d unloaded)) = Inr t \<and> live t = []) \<and>
   (cctx s = None \<and> dctx s = None \<longrightarrow> PG_fini s = Inr s) \<and>
   (PG_fini s = Inr s' \<longrightarrow>
      cctx s' = cctx s \<and> dctx s' = dctx s \<and>
      (\<forall>p. p \<in> set (live s') \<longleftrightarrow>
             p \<in> set (live s) \<and> cctx s \<noteq> Some p \<and> dctx s \<noteq> Some p))"
  using PG_fini_unloaded PG_fini_after_init [of avail_c avail_d] PG_fini_no_handles [of s]
    PG_fini_keeps_handles [of s s'] PG_fini_live [of s s']
  by blast

theorem PG_fini_releases_present_handles_witness:
  "cctx unloaded = None \<and> dctx unloaded = None \<and> PG_fini unloaded = Inr unloaded \<and>
   (\<exists>t. PG_fini (snd (PG_init True False unloaded)) = Inr t \<and> live t = []) \<and>
   PG_fini loaded = Inr (loaded\<lparr>live := []\<rparr>) \<and>
   cctx (loaded\<lparr>live := []\<rparr>) = cctx loaded \<and> dctx (loaded\<lparr>live := []\<rparr>) = dctx loaded \<and>
   (\<forall>p. p \<in> set (live (loaded\<lparr>live := []\<rparr>)) \<longleftrightarrow>
          p \<in> set (live loaded) \<and> cctx loaded \<noteq> Some p \<and> dctx loaded \<noteq> Some p)"
proof -
  have n: "cctx unloaded = None" "dctx unloaded = None"
    by (simp_all add: unloaded_def)
  note a = PG_fini_releases_present_handles [where s = unloaded and s' = unloaded
      and avail_c = True and avail_d = False]
  note b = PG_fini_releases_present_handles [where s = loaded and s' = "loaded\<lparr>live := []\<rparr>"
      and avail_c = True and avail_d = False]
  from a n have u: "PG_fini unloaded = Inr unloaded" by blast
  from a have i: "\<exists>t. PG_fini (snd (PG_init True False unloaded)) = Inr t \<and> live t = []"
    by blast
  from b PG_fini_loaded have k: "cctx (loaded\<lparr>live := []\<rparr>) = cctx loaded"
    "dctx (loaded\<lparr>live := []\<rparr>) = dctx loaded"
    "\<forall>p. p \<in> set (live (loaded\<lparr>live := []\<rparr>)) \<longleftrightarrow>
          p \<in> set (live loaded) \<and> cctx loaded \<noteq> Some p \<and> dctx loaded \<noteq> Some p"
    by blast+
  show ?thesis
    by (intro conjI) (fact n u i PG_fini_loaded k)+
qed

text \<open>
  Claim C3 as stated also asks that \<open>_PG_fini\<close> twice in a row does not crash and is
  a no-op for a handle already released. The code never sets a handle to NULL: after a
  successful \<open>_PG_init\<close> the first \<open>_PG_fini\<close> frees both handles and leaves both
  variables as they were, and the second one passes the freed compression context to
  \<open>ZSTD_freeCCtx\<close> again.
\<close>

theorem PG_fini_twice_frees_twice:
  "PG_init True True unloaded = (None, loaded) \<and>
   PG_fini loaded = Inr (loaded\<lparr>live := []\<rparr>) \<and>
   PG_fini (loaded\<lparr>live := []\<rparr>) = Inl (CRASH ''ZSTD_freeCCtx of a freed handle'')"
  by (simp add: loaded_eq PG_fini_def ZSTD_freeCCtx_def ZSTD_freeDCtx_def)
     (simp add: PG_init_def unloaded_def ZSTD_createCCtx_def ZSTD_createDCtx_def fresh_def)

section \<open>Compression followed by decompression\<close>

text \<open>
  Claim C1, as the code has it. Let the codec keep its contract for the calls that do
  not fail, the allocator be PostgreSQL's, both contexts be created and \<open>b\<close> be a
  bytea. Then for every \<open>b\<close>, every dictionary \<open>d\<close>, absent or not, and every level
  \<open>l\<close> for which \<open>compress\<close> returns a value, \<open>decompress\<close> of that value with the
  same dictionary returns exactly \<open>b\<close>.
\<close>

theorem decompress_of_compressed:
  assumes contract: "zstd_frames c"
    and host: "postgres_allocator h"
    and ctx: "cctx s \<noteq> None" "dctx s \<noteq> None"
    and len: "length b + 4 \<le> MaxAllocSize"
    and ok: "compress c h s (Some b) d l = Inr (Some frame)"
  shows "decompress c h s (Some frame) d = Inr (Some b)"
proof -
  obtain ret written where
    call: "ZSTD_compress_usingDict c (cctx s) (ZSTD_compressBound c (of_nat (length b))) b d
             (case l of None \<Rightarrow> DEFAULT_COMPRESSION_LEVEL | Some v \<Rightarrow> v) = (ret, written)"
    by (cases "ZSTD_compress_usingDict c (cctx s) (ZSTD_compressBound c (of_nat (length b))) b d
             (case l of None \<Rightarrow> DEFAULT_COMPRESSION_LEVEL | Some v \<Rightarrow> v)") blast
  note s = compress_success [OF host ok call]
  have le: "length b \<le> MaxAllocSize" using len by simp
  note k = frames_call [OF contract ctx(1) le call s(3)]
  have frame: "frame = take (unat ret) written"
    using s(7) k(1) by simp
  show ?thesis
    unfolding frame
    using host len k(2) k(3) k(5) [OF ctx(2)] k(4) by (rule decompress_returns)
qed

theorem decompress_of_compressed_witness:
  "zstd_frames plain_zstd \<and> postgres_allocator pg_host \<and>
   cctx loaded \<noteq> None \<and> dctx loaded \<noteq> None \<and>
   compress plain_zstd pg_host loaded (Some [0x41, 0x42, 0x43]) (Some [7, 7]) (Some 19) =
     Inr (Some [0x28, 0xB5, 0x2F, 0xFD, 1, 3, 0, 0, 0, 0, 0, 0, 0, 0x41, 0x42, 0x43]) \<and>
   decompress plain_zstd pg_host loaded
     (Some [0x28, 0xB5, 0x2F, 0xFD, 1, 3, 0, 0, 0, 0, 0, 0, 0, 0x41, 0x42, 0x43]) (Some [7, 7]) =
     Inr (Some [0x41, 0x42, 0x43])"
proof -
  have ctx: "cctx loaded \<noteq> None" "dctx loaded \<noteq> None"
    by (simp_all add: loaded_eq)
  have len: "length [0x41, 0x42, 0x43 :: byte] + 4 \<le> MaxAllocSize"
    by (simp add: MaxAllocSize_def)
  note r = decompress_of_compressed [OF plain_zstd_frames pg_host_allocator ctx len
      plain_compress_ABC_dict]
  show ?thesis
    by (intro conjI) (fact plain_zstd_frames pg_host_allocator ctx plain_compress_ABC_dict r)+
qed

text \<open>
  Claim C1 as stated promises the round trip for every non-empty \<open>b\<close> and valid
  level. \<open>compress\<close> allocates the codec's worst-case bound before it compresses, and
  for the largest bytea that bound is beyond what \<open>palloc\<close> grants: with a codec that
  keeps the whole contract, the default level and no dictionary, \<open>compress\<close> ends in
  \<open>palloc\<close>'s error and there is nothing to decompress.
\<close>

theorem compress_refuses_largest_bytea:
  "replicate 1073741819 (0x41 :: byte) \<noteq> [] \<and>
   length (replicate 1073741819 (0x41 :: byte)) + 4 \<le> MaxAllocSize \<and>
   zstd_contract plain_zstd (\<lambda>l. sint l \<le> 22) \<and>
   postgres_allocator pg_host \<and>
   compress plain_zstd pg_host loaded (Some (replicate 1073741819 0x41)) None None =
     Inl (ERROR ''invalid memory alloc request size'')"
proof -
  have n: "replicate 1073741819 (0x41 :: byte) \<noteq> []"
    by simp
  have l: "length (replicate 1073741819 (0x41 :: byte)) + 4 \<le> MaxAllocSize"
    by (simp add: MaxAllocSize_def)
  have c: "compress plain_zstd pg_host loaded (Some (replicate 1073741819 0x41)) None None =
     Inl (ERROR ''invalid memory alloc request size'')"
    by (rule plain_compress_too_large) simp
  show ?thesis
    by (intro conjI) (fact n l plain_zstd_contract pg_host_allocator c)+
qed



section \<open>The size of the compressed buffer\<close>

text \<open>
  Claim C8. When \<open>compress\<close> returns a buffer, the chunk was first requested with
  \<open>ZSTD_compressBound\<close> of the input length (plus the header), the codec was run with
  that bound as its capacity, the chunk was then resized to the codec's return value
  (plus the header), and the buffer returned has exactly that many bytes. When the
  return value is the number of bytes the codec stored, as its interface promises, the
  buffer is those bytes and the resize does not grow the chunk.
\<close>

theorem compress_exact_fit:
  assumes host: "postgres_allocator h"
    and ok: "compress c h s (Some b) d l = Inr (Some out)"
    and call: "ZSTD_compress_usingDict c (cctx s) (ZSTD_compressBound c (of_nat (length b))) b d
                 (case l of None \<Rightarrow> DEFAULT_COMPRESSION_LEVEL | Some v \<Rightarrow> v) = (ret, written)"
  shows "palloc h (ZSTD_compressBound c (of_nat (length b)) + VARHDRSZ) = None \<and>
         \<not> ZSTD_isError c ret \<and>
         repalloc h (ret + VARHDRSZ) = None \<and>
         unat (ret + VARHDRSZ) = length out + 4 \<and>
         length out = unat ret \<and>
         (length written = unat ret \<longrightarrow>
            out = written \<and> ret \<le> ZSTD_compressBound c (of_nat (length b)))"
proof -
  note k = compress_success [OF host ok call]
  have len: "length out = unat ret"
    using k(7) by simp
  have "out = written \<and> ret \<le> ZSTD_compressBound c (of_nat (length b))"
    if eq: "length written = unat ret"
  proof
    show "out = written" using k(7) eq by simp
    show "ret \<le> ZSTD_compressBound c (of_nat (length b))"
      using k(2) eq unat_plus_le [of "ZSTD_compressBound c (of_nat (length b))"]
      by (auto simp add: stays_inside_def VARHDRSZ_def word_le_nat_alt)
  qed
  with k(1) k(3) k(4) k(5) len show ?thesis by simp
qed

theorem compress_exact_fit_witness:
  "postgres_allocator pg_host \<and>
   compress plain_zstd pg_host loaded (Some [0x41, 0x42, 0x43]) None None =
     Inr (Some [0x28, 0xB5, 0x2F, 0xFD, 1, 3, 0, 0, 0, 0, 0, 0, 0, 0x41, 0x42, 0x43]) \<and>
   ZSTD_compress_usingDict plain_zstd (cctx loaded) (ZSTD_compressBound plain_zstd 3)
     [0x41, 0x42, 0x43] None 3 =
     (16, [0x28, 0xB5, 0x2F, 0xFD, 1, 3, 0, 0, 0, 0, 0, 0, 0, 0x41, 0x42, 0x43]) \<and>
   palloc pg_host (ZSTD_compressBound plain_zstd 3 + VARHDRSZ) = None \<and>
   repalloc pg_host (16 + VARHDRSZ) = None \<and>
   unat (16 + VARHDRSZ) = 20 \<and>
   length [0x28, 0xB5, 0x2F, 0xFD, 1, 3, 0, 0, 0, 0, 0, 0, 0, 0x41, 0x42, 0x43 :: byte] = unat (16 :: size_t) \<and>
   (16 :: size_t) \<le> ZSTD_compressBound plain_zstd 3"
proof -
  have call: "ZSTD_compress_usingDict plain_zstd (cctx loaded)
          (ZSTD_compressBound plain_zstd (of_nat (length [0x41, 0x42, 0x43 :: byte])))
          [0x41, 0x42, 0x43] None
          (case None of None \<Rightarrow> DEFAULT_COMPRESSION_LEVEL | Some v \<Rightarrow> v) =
        (16, [0x28, 0xB5, 0x2F, 0xFD, 1, 3, 0, 0, 0, 0, 0, 0, 0, 0x41, 0x42, 0x43])"
    by (simp add: plain_zstd_def plain_compress_def DEFAULT_COMPRESSION_LEVEL_def
        plain_frame_ABC)
  show ?thesis
    using pg_host_allocator plain_compress_ABC call
      compress_exact_fit [OF pg_host_allocator plain_compress_ABC call]
    by (simp add: DEFAULT_COMPRESSION_LEVEL_def)
qed

section \<open>Errors of the codec\<close>

lemma carries_suffix: "carries_description c code (ERROR (pre @ ZSTD_getErrorName c code))"
  by (simp add: carries_description_def ends_with_def)

lemma compress_codec_error:
  assumes "palloc h (ZSTD_compressBound c (of_nat (length b)) + VARHDRSZ) = None"
    and "stays_inside (ZSTD_compressBound c (of_nat (length b)) + VARHDRSZ)
           (snd (compress_call c s b d l))"
    and "ZSTD_isError c (fst (compress_call c s b d l))"
  shows "compress c h s (Some b) d l =
           Inl (ERROR (''ZSTD_compress_usingDict failed: '' @
                       ZSTD_getErrorName c (fst (compress_call c s b d l))))"
  using assms by (simp add: compress_def compress_call_def Let_def split_def)

lemma decompress_codec_error:
  assumes "\<not> size_unknown c b" "\<not> size_error c b"
    and "palloc h (size_query c b + VARHDRSZ) = None"
    and "stays_inside (size_query c b + VARHDRSZ) (snd (decompress_call c s b d))"
    and "ZSTD_isError c (fst (decompress_call c s b d))"
  shows "decompress c h s (Some b) d =
           Inl (ERROR (''ZSTD_decompress_usingDict failed: '' @
                       ZSTD_getErrorName c (fst (decompress_call c s b d))))"
  using assms
  by (cases "CONTENTSIZE_UNKNOWN_defined c")
     (simp_all add: decompress_def decompress_call_def size_query_def size_unknown_def
      size_error_def Let_def split_def)

lemma size_error_fails:
  assumes "size_error c b"
  shows "decompress c h s (Some b) d = Inl (ERROR ''ZSTD_getFrameContentSize failed'')"
    and "length_zstd c (Some b) = Inl (ERROR ''ZSTD_getFrameContentSize failed'')"
proof -
  have ne: "ZSTD_CONTENTSIZE_ERROR \<noteq> ZSTD_CONTENTSIZE_UNKNOWN"
    by (simp add: ZSTD_CONTENTSIZE_ERROR_def ZSTD_CONTENTSIZE_UNKNOWN_def)
  show "decompress c h s (Some b) d = Inl (ERROR ''ZSTD_getFrameContentSize failed'')"
    using assms ne by (simp add: decompress_def size_error_def Let_def)
  show "length_zstd c (Some b) = Inl (ERROR ''ZSTD_getFrameContentSize failed'')"
    using assms ne by (simp add: length_zstd_def size_error_def Let_def)
qed

lemma no_result_after_error:
  shows "compress c h s (Some b) d l = Inr r \<Longrightarrow> \<not> ZSTD_isError c (fst (compress_call c s b d l))"
    and "decompress c h s (Some b) d = Inr r \<Longrightarrow>
           \<not> size_error c b \<and> \<not> ZSTD_isError c (fst (decompress_call c s b d))"
    and "length_zstd c (Some b) = Inr n \<Longrightarrow> \<not> size_error c b"
proof -
  have ne: "ZSTD_CONTENTSIZE_UNKNOWN \<noteq> ZSTD_CONTENTSIZE_ERROR"
    by (simp add: ZSTD_CONTENTSIZE_ERROR_def ZSTD_CONTENTSIZE_UNKNOWN_def)
  show "compress c h s (Some b) d l = Inr r \<Longrightarrow> \<not> ZSTD_isError c (fst (compress_call c s b d l))"
    by (auto simp add: compress_def compress_call_def Let_def split_def
        split: option.splits if_splits)
  show "decompress c h s (Some b) d = Inr r \<Longrightarrow>
           \<not> size_error c b \<and> \<not> ZSTD_isError c (fst (decompress_call c s b d))"
    by (cases "CONTENTSIZE_UNKNOWN_defined c")
       (auto simp add: decompress_def decompress_call_def size_query_def size_error_def Let_def
        split_def split: option.splits if_splits)
  show "length_zstd c (Some b) = Inr n \<Longrightarrow> \<not> size_error c b"
    using ne by (auto simp add: length_zstd_def size_error_def Let_def split: if_splits)
qed

lemma plain_error_names:
  "plain_isError (zstd_error 42)" "plain_isError (zstd_error 20)"
  "plain_getErrorName (zstd_error 42) = ''Parameter is out of bound''"
  "plain_getErrorName (zstd_error 20) = ''Data corruption detected''"
  "plain_getErrorName ZSTD_CONTENTSIZE_ERROR = ''Unspecified error code''"
  by (simp_all add: plain_isError_def plain_getErrorName_def zstd_error_def
      ZSTD_CONTENTSIZE_ERROR_def)

lemma plain_compress_level_23:
  "compress_call plain_zstd loaded [0x41, 0x42, 0x43] None (Some 23) = (zstd_error 42, [])"
  by (simp add: compress_call_def plain_zstd_def plain_compress_def)

lemma plain_compress_call_ABC:
  "compress_call plain_zstd loaded [0x41, 0x42, 0x43] None None =
     (16, [0x28, 0xB5, 0x2F, 0xFD, 1, 3, 0, 0, 0, 0, 0, 0, 0, 0x41, 0x42, 0x43])"
  by (simp add: compress_call_def plain_zstd_def plain_compress_def DEFAULT_COMPRESSION_LEVEL_def
      plain_frame_ABC)

lemma plain_header_short:
  "plain_header [0x28, 0xB5, 0x2F, 0xFD, 1, 5, 0, 0, 0, 0, 0, 0, 0, 0x41] = Some (Some 5, [0x41])"
  by (simp add: plain_header_def)

lemma plain_decompress_short:
  "size_query plain_zstd [0x28, 0xB5, 0x2F, 0xFD, 1, 5, 0, 0, 0, 0, 0, 0, 0, 0x41] = 5"
  "decompress_call plain_zstd loaded [0x28, 0xB5, 0x2F, 0xFD, 1, 5, 0, 0, 0, 0, 0, 0, 0, 0x41] None =
     (zstd_error 20, [0x41])"
proof -
  show q: "size_query plain_zstd [0x28, 0xB5, 0x2F, 0xFD, 1, 5, 0, 0, 0, 0, 0, 0, 0, 0x41] = 5"
    by (simp add: size_query_def plain_zstd_def plain_getFrameContentSize_def plain_header_short)
  show "decompress_call plain_zstd loaded [0x28, 0xB5, 0x2F, 0xFD, 1, 5, 0, 0, 0, 0, 0, 0, 0, 0x41] None =
     (zstd_error 20, [0x41])"
    unfolding decompress_call_def q
    by (simp add: plain_zstd_def plain_decompress_def plain_header_short)
qed

lemma plain_header_ABC:
  "plain_header [0x28, 0xB5, 0x2F, 0xFD, 1, 3, 0, 0, 0, 0, 0, 0, 0, 0x41, 0x42, 0x43] =
     Some (Some 3, [0x41, 0x42, 0x43])"
  by (simp add: plain_header_def)

lemma plain_decompress_ABC:
  "decompress plain_zstd pg_host loaded
     (Some [0x28, 0xB5, 0x2F, 0xFD, 1, 3, 0, 0, 0, 0, 0, 0, 0, 0x41, 0x42, 0x43]) None =
     Inr (Some [0x41, 0x42, 0x43])"
proof (rule decompress_returns [OF pg_host_allocator])
  show "length [0x41, 0x42, 0x43 :: byte] + 4 \<le> MaxAllocSize"
    by (simp add: MaxAllocSize_def)
  show "ZSTD_getFrameContentSize plain_zstd
          [0x28, 0xB5, 0x2F, 0xFD, 1, 3, 0, 0, 0, 0, 0, 0, 0, 0x41, 0x42, 0x43] =
        of_nat (length [0x41, 0x42, 0x43 :: byte])"
    by (simp add: plain_zstd_def plain_getFrameContentSize_def plain_header_ABC)
  show "ZSTD_getDecompressedSize plain_zstd
          [0x28, 0xB5, 0x2F, 0xFD, 1, 3, 0, 0, 0, 0, 0, 0, 0, 0x41, 0x42, 0x43] =
        of_nat (length [0x41, 0x42, 0x43 :: byte])"
    by (simp add: plain_zstd_def plain_getDecompressedSize_def plain_header_ABC)
  show "ZSTD_decompress_usingDict plain_zstd (dctx loaded) (of_nat (length [0x41, 0x42, 0x43 :: byte]))
          [0x28, 0xB5, 0x2F, 0xFD, 1, 3, 0, 0, 0, 0, 0, 0, 0, 0x41, 0x42, 0x43] None =
        (of_nat (length [0x41, 0x42, 0x43 :: byte]), [0x41, 0x42, 0x43])"
    by (simp add: plain_zstd_def plain_decompress_def plain_header_ABC)
  show "\<not> ZSTD_isError plain_zstd (of_nat (length [0x41, 0x42, 0x43 :: byte]))"
    by (simp add: plain_zstd_def plain_isError_def zstd_error_def)
qed

lemma plain_length_ABC:
  "length_zstd plain_zstd
     (Some [0x28, 0xB5, 0x2F, 0xFD, 1, 3, 0, 0, 0, 0, 0, 0, 0, 0x41, 0x42, 0x43]) = Inr (Some 3)"
  by (simp add: length_zstd_def plain_zstd_def plain_getFrameContentSize_def plain_header_ABC
      ZSTD_CONTENTSIZE_UNKNOWN_def ZSTD_CONTENTSIZE_ERROR_def PG_INT32_MAX_def)

text \<open>
  Claim C7, as the code has it. An error code returned by \<open>ZSTD_compress_usingDict\<close> or
  by \<open>ZSTD_decompress_usingDict\<close> is tested right after the call and raised as an
  \<open>ERROR\<close> whose message ends with \<open>ZSTD_getErrorName\<close> of that code. An error of the
  size query is tested right after the query and raised as an \<open>ERROR\<close> with the fixed
  message \<open>ZSTD_getFrameContentSize failed\<close>, in \<open>decompress\<close> and in \<open>length\<close>
  alike. None of the three functions returns a value after one of these errors.
\<close>

theorem codec_errors_surface:
  "(palloc h (ZSTD_compressBound c (of_nat (length b)) + VARHDRSZ) = None \<and>
    stays_inside (ZSTD_compressBound c (of_nat (length b)) + VARHDRSZ)
      (snd (compress_call c s b d l)) \<and>
    ZSTD_isError c (fst (compress_call c s b d l)) \<longrightarrow>
      compress c h s (Some b) d l =
        Inl (ERROR (''ZSTD_compress_usingDict failed: '' @
                    ZSTD_getErrorName c (fst (compress_call c s b d l)))) \<and>
      carries_description c (fst (compress_call c s b d l))
        (ERROR (''ZSTD_compress_usingDict failed: '' @
                ZSTD_getErrorName c (fst (compress_call c s b d l))))) \<and>
   (\<not> size_unknown c b \<and> \<not> size_error c b \<and>
    palloc h (size_query c b + VARHDRSZ) = None \<and>
    stays_inside (size_query c b + VARHDRSZ) (snd (decompress_call c s b d)) \<and>
    ZSTD_isError c (fst (decompress_call c s b d)) \<longrightarrow>
      decompress c h s (Some b) d =
        Inl (ERROR (''ZSTD_decompress_usingDict failed: '' @
                    ZSTD_getErrorName c (fst (decompress_call c s b d)))) \<and>
      carries_description c (fst (decompress_call c s b d))
        (ERROR (''ZSTD_decompress_usingDict failed: '' @
                ZSTD_getErrorName c (fst (decompress_call c s b d))))) \<and>
   (size_error c b \<longrightarrow>
      decompress c h s (Some b) d = Inl (ERROR ''ZSTD_getFrameContentSize failed'') \<and>
      length_zstd c (Some b) = Inl (ERROR ''ZSTD_getFrameContentSize failed'')) \<and>
   (compress c h s (Some b) d l = Inr r \<longrightarrow>
      \<not> ZSTD_isError c (fst (compress_call c s b d l))) \<and>
   (decompress c h s (Some b) d = Inr r \<longrightarrow>
      \<not> size_error c b \<and> \<not> ZSTD_isError c (fst (decompress_call c s b d))) \<and>
   (length_zstd c (Some b) = Inr n \<longrightarrow> \<not> size_error c b)"
proof (intro conjI impI)
  assume a: "palloc h (ZSTD_compressBound c (of_nat (length b)) + VARHDRSZ) = None \<and>
    stays_inside (ZSTD_compressBound c (of_nat (length b)) + VARHDRSZ)
      (snd (compress_call c s b d l)) \<and>
    ZSTD_isError c (fst (compress_call c s b d l))"
  then show "compress c h s (Some b) d l =
        Inl (ERROR (''ZSTD_compress_usingDict failed: '' @
                    ZSTD_getErrorName c (fst (compress_call c s b d l))))"
    by (intro compress_codec_error) simp_all
next
  assume a: "\<not> size_unknown c b \<and> \<not> size_error c b \<and>
    palloc h (size_query c b + VARHDRSZ) = None \<and>
    stays_inside (size_query c b + VARHDRSZ) (snd (decompress_call c s b d)) \<and>
    ZSTD_isError c (fst (decompress_call c s b d))"
  then show "decompress c h s (Some b) d =
        Inl (ERROR (''ZSTD_decompress_usingDict failed: '' @
                    ZSTD_getErrorName c (fst (decompress_call c s b d))))"
    by (intro decompress_codec_error) simp_all
next
  assume "size_error c b"
  then show "decompress c h s (Some b) d = Inl (ERROR ''ZSTD_getFrameContentSize failed'')"
    by (rule size_error_fails(1))
next
  assume "size_error c b"
  then show "length_zstd c (Some b) = Inl (ERROR ''ZSTD_getFrameContentSize failed'')"
    by (rule size_error_fails(2))
next
  assume "compress c h s (Some b) d l = Inr r"
  then show "\<not> ZSTD_isError c (fst (compress_call c s b d l))"
    by (rule no_result_after_error(1))
next
  assume r: "decompress c h s (Some b) d = Inr r"
  from no_result_after_error(2) [OF r] show "\<not> size_error c b" by simp
  from no_result_after_error(2) [OF r]
  show "\<not> ZSTD_isError c (fst (decompress_call c s b d))" by simp
next
  assume "length_zstd c (Some b) = Inr n"
  then show "\<not> size_error c b"
    by (rule no_result_after_error(3))
qed (rule carries_suffix)+

theorem codec_errors_surface_witness:
  "ZSTD_isError plain_zstd (fst (compress_call plain_zstd loaded [0x41, 0x42, 0x43] None (Some 23))) \<and>
   compress plain_zstd pg_host loaded (Some [0x41, 0x42, 0x43]) None (Some 23) =
     Inl (ERROR ''ZSTD_compress_usingDict failed: Parameter is out of bound'') \<and>
   ZSTD_isError plain_zstd
     (fst (decompress_call plain_zstd loaded
             [0x28, 0xB5, 0x2F, 0xFD, 1, 5, 0, 0, 0, 0, 0, 0, 0, 0x41] None)) \<and>
   decompress plain_zstd pg_host loaded
     (Some [0x28, 0xB5, 0x2F, 0xFD, 1, 5, 0, 0, 0, 0, 0, 0, 0, 0x41]) None =
     Inl (ERROR ''ZSTD_decompress_usingDict failed: Data corruption detected'') \<and>
   size_error plain_zstd [1, 2, 3, 4] \<and>
   decompress plain_zstd pg_host loaded (Some [1, 2, 3, 4]) None =
     Inl (ERROR ''ZSTD_getFrameContentSize failed'') \<and>
   length_zstd plain_zstd (Some [1, 2, 3, 4]) = Inl (ERROR ''ZSTD_getFrameContentSize failed'') \<and>
   compress plain_zstd pg_host loaded (Some [0x41, 0x42, 0x43]) None None =
     Inr (Some [0x28, 0xB5, 0x2F, 0xFD, 1, 3, 0, 0, 0, 0, 0, 0, 0, 0x41, 0x42, 0x43]) \<and>
   \<not> ZSTD_isError plain_zstd (fst (compress_call plain_zstd loaded [0x41, 0x42, 0x43] None None)) \<and>
   decompress plain_zstd pg_host loaded
     (Some [0x28, 0xB5, 0x2F, 0xFD, 1, 3, 0, 0, 0, 0, 0, 0, 0, 0x41, 0x42, 0x43]) None =
     Inr (Some [0x41, 0x42, 0x43]) \<and>
   length_zstd plain_zstd
     (Some [0x28, 0xB5, 0x2F, 0xFD, 1, 3, 0, 0, 0, 0, 0, 0, 0, 0x41, 0x42, 0x43]) = Inr (Some 3) \<and>
   \<not> size_error plain_zstd [0x28, 0xB5, 0x2F, 0xFD, 1, 3, 0, 0, 0, 0, 0, 0, 0, 0x41, 0x42, 0x43]"
proof -
  let ?abc = "[0x41, 0x42, 0x43] :: byte list"
  let ?frame = "[0x28, 0xB5, 0x2F, 0xFD, 1, 3, 0, 0, 0, 0, 0, 0, 0, 0x41, 0x42, 0x43] :: byte list"
  let ?short = "[0x28, 0xB5, 0x2F, 0xFD, 1, 5, 0, 0, 0, 0, 0, 0, 0, 0x41] :: byte list"
  have p1: "palloc pg_host (ZSTD_compressBound plain_zstd (of_nat (length ?abc)) + VARHDRSZ) = None"
    by (simp add: pg_host_def pg_palloc_def plain_zstd_def VARHDRSZ_def MaxAllocSize_def)
  have i1: "stays_inside (ZSTD_compressBound plain_zstd (of_nat (length ?abc)) + VARHDRSZ)
              (snd (compress_call plain_zstd loaded ?abc None (Some 23)))"
    by (simp add: plain_compress_level_23 stays_inside_def)
  have e1: "ZSTD_isError plain_zstd (fst (compress_call plain_zstd loaded ?abc None (Some 23)))"
    by (simp add: plain_compress_level_23) (simp add: plain_zstd_def plain_error_names)
  have n1: "ZSTD_getErrorName plain_zstd (fst (compress_call plain_zstd loaded ?abc None (Some 23))) =
              ''Parameter is out of bound''"
    by (simp add: plain_compress_level_23) (simp add: plain_zstd_def plain_error_names)
  have u2: "\<not> size_unknown plain_zstd ?short" "\<not> size_error plain_zstd ?short"
    by (simp_all add: size_unknown_def size_error_def plain_zstd_def plain_getFrameContentSize_def
        plain_header_short ZSTD_CONTENTSIZE_UNKNOWN_def ZSTD_CONTENTSIZE_ERROR_def)
  have p2: "palloc pg_host (size_query plain_zstd ?short + VARHDRSZ) = None"
    by (simp add: plain_decompress_short pg_host_def pg_palloc_def VARHDRSZ_def MaxAllocSize_def)
  have i2: "stays_inside (size_query plain_zstd ?short + VARHDRSZ)
              (snd (decompress_call plain_zstd loaded ?short None))"
    by (simp add: plain_decompress_short stays_inside_def VARHDRSZ_def)
  have e2: "ZSTD_isError plain_zstd (fst (decompress_call plain_zstd loaded ?short None))"
    by (simp add: plain_decompress_short) (simp add: plain_zstd_def plain_error_names)
  have n2: "ZSTD_getErrorName plain_zstd (fst (decompress_call plain_zstd loaded ?short None)) =
              ''Data corruption detected''"
    by (simp add: plain_decompress_short) (simp add: plain_zstd_def plain_error_names)
  have e3: "size_error plain_zstd [1, 2, 3, 4]"
    using plain_malformed by (simp add: size_error_def plain_zstd_def)
  have c1: "compress plain_zstd pg_host loaded (Some ?abc) None (Some 23) =
              Inl (ERROR (''ZSTD_compress_usingDict failed: '' @
                 ZSTD_getErrorName plain_zstd
                   (fst (compress_call plain_zstd loaded ?abc None (Some 23)))))"
    using p1 i1 e1
      codec_errors_surface [where h = pg_host and c = plain_zstd and b = ?abc and s = loaded
        and d = None and l = "Some 23"]
    by blast
  have c2: "decompress plain_zstd pg_host loaded (Some ?short) None =
              Inl (ERROR (''ZSTD_decompress_usingDict failed: '' @
                 ZSTD_getErrorName plain_zstd (fst (decompress_call plain_zstd loaded ?short None))))"
    using u2 p2 i2 e2
      codec_errors_surface [where h = pg_host and c = plain_zstd and b = ?short and s = loaded
        and d = None]
    by blast
  have c3: "decompress plain_zstd pg_host loaded (Some [1, 2, 3, 4]) None =
              Inl (ERROR ''ZSTD_getFrameContentSize failed'')"
    "length_zstd plain_zstd (Some [1, 2, 3, 4]) = Inl (ERROR ''ZSTD_getFrameContentSize failed'')"
    using e3
      codec_errors_surface [where h = pg_host and c = plain_zstd and b = "[1, 2, 3, 4]"
        and s = loaded and d = None]
    by blast+
  have c4: "\<not> ZSTD_isError plain_zstd (fst (compress_call plain_zstd loaded ?abc None None))"
    using plain_compress_ABC
      codec_errors_surface [where h = pg_host and c = plain_zstd and b = ?abc and s = loaded
        and d = None and l = None and r = "Some ?frame"]
    by blast
  have c5: "\<not> size_error plain_zstd ?frame"
    using plain_length_ABC
      codec_errors_surface [where h = pg_host and c = plain_zstd and b = ?frame and s = loaded
        and d = None and n = "Some 3"]
    by blast
  from c1 have c1': "compress plain_zstd pg_host loaded (Some ?abc) None (Some 23) =
     Inl (ERROR ''ZSTD_compress_usingDict failed: Parameter is out of bound'')"
    unfolding n1 by simp
  from c2 have c2': "decompress plain_zstd pg_host loaded (Some ?short) None =
     Inl (ERROR ''ZSTD_decompress_usingDict failed: Data corruption detected'')"
    unfolding n2 by simp
  show ?thesis
    by (intro conjI) (fact e1 c1' e2 c2' e3 c3 plain_compress_ABC c4 plain_decompress_ABC
        plain_length_ABC c5)+
qed

text \<open>
  Claim C7 as stated asks that every error the codec reports is raised with the codec's
  description of it. The size query's error is not: for a buffer that is no frame,
  \<open>decompress\<close> and \<open>length\<close> raise \<open>ZSTD_getFrameContentSize failed\<close> and
  nothing of what the codec would say about the code.
\<close>

theorem size_query_error_without_description:
  "ZSTD_getFrameContentSize plain_zstd [1, 2, 3, 4] = ZSTD_CONTENTSIZE_ERROR \<and>
   decompress plain_zstd pg_host loaded (Some [1, 2, 3, 4]) None =
     Inl (ERROR ''ZSTD_getFrameContentSize failed'') \<and>
   length_zstd plain_zstd (Some [1, 2, 3, 4]) = Inl (ERROR ''ZSTD_getFrameContentSize failed'') \<and>
   ZSTD_getErrorName plain_zstd ZSTD_CONTENTSIZE_ERROR = ''Unspecified error code'' \<and>
   \<not> carries_description plain_zstd ZSTD_CONTENTSIZE_ERROR
       (ERROR ''ZSTD_getFrameContentSize failed'')"
proof -
  have e: "size_error plain_zstd [1, 2, 3, 4]"
    using plain_malformed by (simp add: size_error_def plain_zstd_def)
  have n: "ZSTD_getErrorName plain_zstd ZSTD_CONTENTSIZE_ERROR = ''Unspecified error code''"
    by (simp add: plain_zstd_def plain_error_names)
  have "\<not> carries_description plain_zstd ZSTD_CONTENTSIZE_ERROR
       (ERROR ''ZSTD_getFrameContentSize failed'')"
    by (simp add: carries_description_def ends_with_def n)
  with plain_malformed n size_error_fails [OF e] show ?thesis
    by simp
qed

section \<open>The empty input\<close>




section \<open>Declared sizes beyond \<open>PG_INT32_MAX\<close>\<close>

text \<open>
  \<open>length\<close> compares the declared size with \<open>PG_INT32_MAX\<close> and raises an error
  above it. \<open>decompress\<close> has no such test; up to \<open>2^64 - 5\<close> the request of
  \<open>out_len + VARHDRSZ\<close> bytes is beyond what PostgreSQL's allocator grants, and
  \<open>palloc\<close> raises the error.
\<close>

lemma length_overflow_guard:
  assumes "PG_INT32_MAX < size_query c b" and "\<not> size_unknown c b"
  shows "\<exists>msg. length_zstd c (Some b) = Inl (ERROR msg)"
  using assms by (simp add: length_zstd_def size_query_def size_unknown_def Let_def)

lemma oversize_request:
  assumes "PG_INT32_MAX < (n :: size_t)" and "n < - 4"
  shows "MaxAllocSize < unat (n + VARHDRSZ)"
proof -
  from assms have "2147483647 < unat n" and "unat n < 18446744073709551612"
    by (simp_all add: PG_INT32_MAX_def word_less_nat_alt)
  then show ?thesis
    by (simp add: VARHDRSZ_def unat_word_ariths MaxAllocSize_def)
qed

lemma decompress_refuses_large:
  assumes "postgres_allocator h"
    and "PG_INT32_MAX < size_query c b" and "size_query c b < - 4"
  shows "\<exists>msg. decompress c h s (Some b) d = Inl (ERROR msg)"
proof -
  from assms have "palloc h (size_query c b + VARHDRSZ) \<noteq> None"
    using oversize_request [of "size_query c b"] by (simp add: postgres_allocator_def)
  then obtain msg where "palloc h (size_query c b + VARHDRSZ) = Some msg"
    by blast
  then show ?thesis
    by (simp add: decompress_def size_query_def Let_def)
qed

text \<open>
  At a declared size of \<open>2^64 - 4\<close> the sum \<open>out_len + VARHDRSZ\<close> is 0: the chunk
  requested has no bytes, and the codec is given a capacity of \<open>2^64 - 4\<close>. Whatever
  the codec, no value is returned, and a single byte stored by it lies outside the chunk.
\<close>

lemma decompress_size_wraps:
  assumes "CONTENTSIZE_UNKNOWN_defined c"
    and "ZSTD_getFrameContentSize c b = - 4"
    and "palloc h 0 = None"
    and "ZSTD_decompress_usingDict c (dctx s) (- 4) b d = (ret, written)"
  shows "decompress c h s (Some b) d =
           (if written \<noteq> [] then Inl (CRASH ''ZSTD_decompress_usingDict stored past the chunk'')
            else if ZSTD_isError c ret
            then Inl (ERROR (''ZSTD_decompress_usingDict failed: '' @ ZSTD_getErrorName c ret))
            else Inl (CRASH ''SET_VARSIZE stored past the chunk''))"
proof -
  have ne: "(- 4 :: 64 word) \<noteq> ZSTD_CONTENTSIZE_UNKNOWN" "(- 4 :: 64 word) \<noteq> ZSTD_CONTENTSIZE_ERROR"
    by (simp_all add: ZSTD_CONTENTSIZE_UNKNOWN_def ZSTD_CONTENTSIZE_ERROR_def)
  show ?thesis
    using assms ne
    by (simp add: decompress_def Let_def VARHDRSZ_def stays_inside_def)
qed

text \<open>
  Claim C2. \<open>length\<close> raises an error for a frame that declares \<open>2^64 - 4\<close> bytes, as
  the claim says. \<open>decompress\<close> of the same frame asks \<open>palloc\<close> for
  \<open>(2^64 - 4) + 4 = 0\<close> bytes, which is granted, and the codec stores the frame's
  one byte of data past the end of that chunk.
\<close>

theorem decompress_oversize_wraps:
  "ZSTD_getFrameContentSize plain_zstd
     [0x28, 0xB5, 0x2F, 0xFD, 1, 0xFC, 0xFF, 0xFF, 0xFF, 0xFF, 0xFF, 0xFF, 0xFF, 0x41] = - 4 \<and>
   PG_INT32_MAX < (- 4 :: size_t) \<and>
   length_zstd plain_zstd
     (Some [0x28, 0xB5, 0x2F, 0xFD, 1, 0xFC, 0xFF, 0xFF, 0xFF, 0xFF, 0xFF, 0xFF, 0xFF, 0x41]) =
     Inl (ERROR ''ZSTD_getDecompressedSize returned value greater than PG_INT32_MAX'') \<and>
   (- 4 :: size_t) + VARHDRSZ = 0 \<and>
   palloc pg_host ((- 4) + VARHDRSZ) = None \<and>
   decompress plain_zstd pg_host loaded
     (Some [0x28, 0xB5, 0x2F, 0xFD, 1, 0xFC, 0xFF, 0xFF, 0xFF, 0xFF, 0xFF, 0xFF, 0xFF, 0x41]) None =
     Inl (CRASH ''ZSTD_decompress_usingDict stored past the chunk'')"
proof -
  let ?f = "[0x28, 0xB5, 0x2F, 0xFD, 1, 0xFC, 0xFF, 0xFF, 0xFF, 0xFF, 0xFF, 0xFF, 0xFF, 0x41] :: byte list"
  have hd: "plain_header ?f = Some (Some (- 4), [0x41])"
    by (simp add: plain_header_def)
  have q: "ZSTD_getFrameContentSize plain_zstd ?f = - 4"
    using hd by (simp add: plain_zstd_def plain_getFrameContentSize_def)
  have big: "PG_INT32_MAX < (- 4 :: size_t)"
    by (simp add: PG_INT32_MAX_def)
  have w: "(- 4 :: size_t) + VARHDRSZ = 0"
    by (simp add: VARHDRSZ_def)
  have p: "palloc pg_host 0 = None"
    by (simp add: pg_host_def pg_palloc_def)
  have k: "CONTENTSIZE_UNKNOWN_defined plain_zstd"
    by (simp add: plain_zstd_def)
  have call: "ZSTD_decompress_usingDict plain_zstd (dctx loaded) (- 4) ?f None =
                (zstd_error 20, [0x41])"
    using hd by (simp add: plain_zstd_def plain_decompress_def)
  have l: "length_zstd plain_zstd (Some ?f) =
     Inl (ERROR ''ZSTD_getDecompressedSize returned value greater than PG_INT32_MAX'')"
    using q big k
    by (simp add: length_zstd_def Let_def ZSTD_CONTENTSIZE_UNKNOWN_def ZSTD_CONTENTSIZE_ERROR_def
       )
  show ?thesis
    using q big l w p decompress_size_wraps [OF k q p call] by (simp)
qed

end
